theory Spec2Isabelle
  imports Complex_Main
begin

section \<open>JavaScript numbers and strings\<close>

text \<open>
  A JavaScript number is an IEEE double. \<open>toDouble\<close> rounds a real to the nearest
  double, ties to the even significand: a double of binary exponent \<open>e\<close> is a multiple
  of \<open>2\<^sup>e\<^sup>-\<^sup>5\<^sup>2\<close>. Overflow and subnormal numbers are left out; no
  value of the program comes near either.
\<close>

definition roundHalfEven :: "real \<Rightarrow> int" where
  "roundHalfEven y =
     (let f = \<lfloor>y\<rfloor>; d = y - of_int f
      in if d < 1 / 2 then f else if d > 1 / 2 then f + 1 else if even f then f else f + 1)"

definition toDouble :: "real \<Rightarrow> real" where
  "toDouble x =
     (if x = 0 then 0
      else let ulp = 2 powr (of_int \<lfloor>log 2 \<bar>x\<bar>\<rfloor> - 52)
           in of_int (roundHalfEven (x / ulp)) * ulp)"

text \<open>\<^verbatim>\<open>Math.round\<close>: the nearest integer, halves rounded towards plus infinity.\<close>

definition jsRound :: "real \<Rightarrow> real" where
  "jsRound x = of_int \<lfloor>x + 1 / 2\<rfloor>"

text \<open>
  The text of an element and its class attribute may hold any character: such a string
  is the list of its UTF-16 code units. Tag names, CSS values and the literals of the
  program are ASCII and stay of type \<open>string\<close>; \<open>ustr\<close> gives their code units.
\<close>

type_synonym ustring = "nat list"

definition ustr :: "string \<Rightarrow> ustring" where
  "ustr s = map of_char s"

text \<open>
  The white space and line terminators of the language, which
  \<^verbatim>\<open>String.prototype.trim\<close> strips and the white-space class of a regular
  expression matches: U+0009 to U+000D, U+0020, U+00A0, U+1680, U+2000 to U+200A, U+2028, U+2029,
  U+202F, U+205F, U+3000 and U+FEFF.
\<close>

definition isJsWhiteSpace :: "nat \<Rightarrow> bool" where
  "isJsWhiteSpace u \<longleftrightarrow>
     u \<in> set [9, 10, 11, 12, 13, 32, 160, 5760, 8232, 8233, 8239, 8287, 12288, 65279]
     \<or> (8192 \<le> u \<and> u \<le> 8202)"

definition trim :: "ustring \<Rightarrow> ustring" where
  "trim s = rev (dropWhile isJsWhiteSpace (rev (dropWhile isJsWhiteSpace s)))"

text \<open>\<^verbatim>\<open>split\<close> at the runs of white space, as \<^verbatim>\<open>generateSelector\<close> calls it:
  the pieces between the runs; \<open>cur\<close> is the piece being read.\<close>

fun splitAcc :: "ustring \<Rightarrow> ustring \<Rightarrow> ustring list" where
  "splitAcc cur [] = [cur]"
| "splitAcc cur (u # us) =
     (if isJsWhiteSpace u then
        (case us of
           v # _ \<Rightarrow> if isJsWhiteSpace v then splitAcc cur us else cur # splitAcc [] us
         | [] \<Rightarrow> cur # splitAcc [] us)
      else splitAcc (cur @ [u]) us)"

definition splitWhitespace :: "ustring \<Rightarrow> ustring list" where
  "splitWhitespace s = splitAcc [] s"

text \<open>\<^verbatim>\<open>Array.prototype.join\<close> with a separator.\<close>

fun joinWith :: "ustring \<Rightarrow> ustring list \<Rightarrow> ustring" where
  "joinWith sep [] = []"
| "joinWith sep [x] = x"
| "joinWith sep (x # y # ys) = x @ sep @ joinWith sep (y # ys)"

text \<open>\<^verbatim>\<open>String.prototype.toLowerCase\<close> on a string of type \<open>string\<close>.\<close>

definition toLowerChar :: "char \<Rightarrow> char" where
  "toLowerChar ch =
     (case map_of (zip ''ABCDEFGHIJKLMNOPQRSTUVWXYZ'' ''abcdefghijklmnopqrstuvwxyz'') ch of
        None \<Rightarrow> ch
      | Some l \<Rightarrow> l)"

definition toLowerCase :: "string \<Rightarrow> string" where
  "toLowerCase s = map toLowerChar s"

section \<open>Exceptions and the selector of an element\<close>

text \<open>
  The only exception of the modelled code is the \<^verbatim>\<open>SyntaxError\<close> that
  \<^verbatim>\<open>document.querySelectorAll\<close> throws on a selector it cannot parse. No caller
  catches it. An outcome is \<open>Inr s\<close> when the code returned with state \<open>s\<close>, and
  \<open>Inl (err, s)\<close> when it threw \<open>err\<close> and left the state \<open>s\<close> behind.
\<close>

datatype error = SyntaxError

type_synonym 's outcome = "(error \<times> 's) + 's"

definition finalState :: "'s outcome \<Rightarrow> 's" where
  "finalState r = (case r of Inl (err, s) \<Rightarrow> s | Inr s \<Rightarrow> s)"

text \<open>\<^verbatim>\<open>forEach\<close> with a callback that may throw: the first exception ends the loop.\<close>

fun forEachE :: "('s \<Rightarrow> 'a \<Rightarrow> 's outcome) \<Rightarrow> 's \<Rightarrow> 'a list \<Rightarrow> 's outcome" where
  "forEachE f st [] = Inr st"
| "forEachE f st (x # xs) =
     (case f st x of Inl thrown \<Rightarrow> Inl thrown | Inr st' \<Rightarrow> forEachE f st' xs)"

text \<open>
  \<^verbatim>\<open>generateSelector(element)\<close>, lines 1334-1361 of the contrast analyser and lines
  61-95 of code.js, on the tag name, the \<^verbatim>\<open>id\<close> and the \<^verbatim>\<open>className\<close> of the element
  (\<open>None\<close> when \<^verbatim>\<open>className\<close> is not a string). The browser's selector parser is the
  parameter \<open>parses\<close>: \<^verbatim>\<open>document.querySelectorAll(selector)\<close> throws exactly when
  \<open>parses selector\<close> is false. The selector is put together from the class names as
  they are, without escaping. What the function does after the query, adding
  \<^verbatim>\<open>:nth-child\<close> to a selector that matches several elements, needs the result of the
  query and cannot throw; it is left out, and the string serves only the descriptive
  part of an issue.
\<close>

definition classSelector :: "string \<Rightarrow> ustring option \<Rightarrow> ustring" where
  "classSelector tag cls =
     (let selector = ustr (toLowerCase tag)
      in case cls of
           None \<Rightarrow> selector
         | Some cn \<Rightarrow>
             if cn \<noteq> [] then
               (let classes = splitWhitespace (trim cn)
                in if length classes > 0 \<and> hd classes \<noteq> []
                   then selector @ ustr ''.'' @ joinWith (ustr ''.'') classes
                   else selector)
             else selector)"

definition generateSelector ::
  "(ustring \<Rightarrow> bool) \<Rightarrow> string \<Rightarrow> ustring \<Rightarrow> ustring option \<Rightarrow> error + ustring" where
  "generateSelector parses tag ident cls =
     (if ident \<noteq> [] then Inr (ustr ''#'' @ ident)
      else let selector = classSelector tag cls
           in if parses selector then Inr selector else Inl SyntaxError)"

text \<open>\<^verbatim>\<open>elements.map(element => ... generateSelector(element) ...)\<close> of
  \<^verbatim>\<open>createFixableIssue\<close>: the selectors in order, or the first exception.\<close>

fun selectorsOf ::
  "(ustring \<Rightarrow> bool) \<Rightarrow> (string \<times> ustring \<times> ustring option) list \<Rightarrow> error + ustring list" where
  "selectorsOf parses [] = Inr []"
| "selectorsOf parses ((tag, ident, cls) # rest) =
     (case generateSelector parses tag ident cls of
        Inl err \<Rightarrow> Inl err
      | Inr selector \<Rightarrow>
          (case selectorsOf parses rest of
             Inl err \<Rightarrow> Inl err
           | Inr selectors \<Rightarrow> Inr (selector # selectors)))"

section \<open>Colour model (UI/Accessibility.Contrast.Analyzer.js)\<close>

text \<open>
  A colour is the object \<^verbatim>\<open>{r, g, b, a}\<close> built by \<^verbatim>\<open>parseColor\<close>. The four
  components are JavaScript numbers, the real values of doubles (the fields are
  called \<open>col_r\<close>, \<open>col_g\<close>, \<open>col_b\<close>, \<open>col_a\<close> for the source's \<^verbatim>\<open>r\<close>, \<^verbatim>\<open>g\<close>,
  \<^verbatim>\<open>b\<close>, \<^verbatim>\<open>a\<close>).
\<close>

record color =
  col_r :: real
  col_g :: real
  col_b :: real
  col_a :: real

text \<open>The data model's invariant: channels lie in 0..255.\<close>

definition validColor :: "color \<Rightarrow> bool" where
  "validColor c \<longleftrightarrow>
     0 \<le> col_r c \<and> col_r c \<le> 255 \<and> 0 \<le> col_g c \<and> col_g c \<le> 255 \<and>
     0 \<le> col_b c \<and> col_b c \<le> 255"

definition integerChannels :: "color \<Rightarrow> bool" where
  "integerChannels c \<longleftrightarrow> col_r c \<in> \<int> \<and> col_g c \<in> \<int> \<and> col_b c \<in> \<int>"

text \<open>
  \<^verbatim>\<open>blendColors(foreground, background)\<close>, lines 167-177. Every subtraction,
  product and sum is rounded to a double, and \<^verbatim>\<open>Math.round\<close> takes the rounded sum.
\<close>

definition blendColors :: "color \<Rightarrow> color \<Rightarrow> color" where
  "blendColors foreground background =
     (let alpha = col_a foreground;
          invAlpha = toDouble (1 - alpha)
      in \<lparr> col_r = jsRound (toDouble (toDouble (col_r foreground * alpha)
                                       + toDouble (col_r background * invAlpha))),
           col_g = jsRound (toDouble (toDouble (col_g foreground * alpha)
                                       + toDouble (col_g background * invAlpha))),
           col_b = jsRound (toDouble (toDouble (col_b foreground * alpha)
                                       + toDouble (col_b background * invAlpha))),
           col_a = 1 \<rparr>)"

text \<open>
  \<^verbatim>\<open>getRelativeLuminance(color)\<close>, lines 223-233, and the contrast ratio after it, are
  kept over the reals: the result of \<^verbatim>\<open>Math.pow\<close> is left to the implementation by
  the language, and nothing is rounded to an integer afterwards.
\<close>

definition getRelativeLuminance :: "color \<Rightarrow> real" where
  "getRelativeLuminance c =
     (let rsRGB = col_r c / 255;
          gsRGB = col_g c / 255;
          bsRGB = col_b c / 255;
          r = (if rsRGB \<le> 0.03928 then rsRGB / 12.92 else ((rsRGB + 0.055) / 1.055) powr 2.4);
          g = (if gsRGB \<le> 0.03928 then gsRGB / 12.92 else ((gsRGB + 0.055) / 1.055) powr 2.4);
          b = (if bsRGB \<le> 0.03928 then bsRGB / 12.92 else ((bsRGB + 0.055) / 1.055) powr 2.4)
      in 0.2126 * r + 0.7152 * g + 0.0722 * b)"

text \<open>\<^verbatim>\<open>calculateContrastRatio(color1, color2)\<close>, lines 212-220.\<close>

definition calculateContrastRatio :: "color \<Rightarrow> color \<Rightarrow> real" where
  "calculateContrastRatio color1 color2 =
     (let l1 = getRelativeLuminance color1;
          l2 = getRelativeLuminance color2;
          lighter = max l1 l2;
          darker = min l1 l2
      in (lighter + 0.05) / (darker + 0.05))"

definition black :: color where
  "black = \<lparr> col_r = 0, col_g = 0, col_b = 0, col_a = 1 \<rparr>"

definition white :: color where
  "white = \<lparr> col_r = 255, col_g = 255, col_b = 255, col_a = 1 \<rparr>"

text \<open>
  The formula of the specification, written from its words: the sRGB transfer function
  on a channel normalised to 0..1, and the weighted sum of the three linear channels.
\<close>

definition srgbToLinear :: "real \<Rightarrow> real" where
  "srgbToLinear s = (if s \<le> 0.03928 then s / 12.92 else ((s + 0.055) / 1.055) powr 2.4)"

definition specLuminance :: "color \<Rightarrow> real" where
  "specLuminance c =
     0.2126 * srgbToLinear (col_r c / 255) + 0.7152 * srgbToLinear (col_g c / 255)
       + 0.0722 * srgbToLinear (col_b c / 255)"

section \<open>Background resolver\<close>

text \<open>
  The part of a DOM element the contrast analyser reads. \<open>elementId\<close> is
  \<^verbatim>\<open>element.id\<close> (empty when there is none), \<open>className\<close> is \<^verbatim>\<open>element.className\<close>
  (\<open>None\<close> when it is not a string, as on an SVG element). \<open>isBody\<close> is the test
  \<^verbatim>\<open>current === document.body\<close>; \<open>offsetParentNull\<close> is
  \<^verbatim>\<open>element.offsetParent === null\<close>; \<open>roleAttr\<close> is \<^verbatim>\<open>getAttribute('role')\<close>,
  \<open>None\<close> when \<^verbatim>\<open>hasAttribute('role')\<close> is false. \<open>styleColor\<close> and
  \<open>styleBackgroundColor\<close> are the results of \<^verbatim>\<open>parseColor\<close> on the computed
  \<^verbatim>\<open>color\<close> and \<^verbatim>\<open>backgroundColor\<close> (\<open>None\<close> for \<^verbatim>\<open>null\<close>: the browser's
  normalisation of a colour string is outside the program). \<open>styleFontSize\<close> is
  \<^verbatim>\<open>parseFloat(computedStyle.fontSize)\<close>, a length in px. \<open>parentElement\<close> is
  \<open>None\<close> for \<^verbatim>\<open>null\<close>.
\<close>

datatype element = Element
  (tagName: string)
  (elementId: ustring)
  (className: "ustring option")
  (textContent: ustring)
  (offsetParentNull: bool)
  (isBody: bool)
  (roleAttr: "string option")
  (styleColor: "color option")
  (styleBackgroundColor: "color option")
  (styleFontSize: real)
  (styleFontWeight: string)
  (parentElement: "element option")

text \<open>
  \<^verbatim>\<open>getEffectiveBackgroundColor(element)\<close>, lines 134-164. The argument may be
  \<^verbatim>\<open>null\<close> (the recursive call passes \<^verbatim>\<open>current.parentElement\<close>). The loop
  \<^verbatim>\<open>while (current && current !== document.body)\<close> either returns or goes on with
  \<^verbatim>\<open>current.parentElement\<close>, which is the function itself on the parent. The test
  \<^verbatim>\<open>if (parentBg)\<close> always succeeds, since every path of the function returns an
  object.
\<close>

function (sequential) getEffectiveBackgroundColor :: "element option \<Rightarrow> color" where
  "getEffectiveBackgroundColor None = white"
| "getEffectiveBackgroundColor (Some current) =
     (if isBody current then white
      else case styleBackgroundColor current of
             Some bgColor \<Rightarrow>
               if col_a bgColor > 0 then
                 (if col_a bgColor = 1 then bgColor
                  else blendColors bgColor (getEffectiveBackgroundColor (parentElement current)))
               else getEffectiveBackgroundColor (parentElement current)
           | None \<Rightarrow> getEffectiveBackgroundColor (parentElement current))"
  by pat_completeness auto
termination
  apply (relation "measure (size_option size)")
     apply simp
    apply (case_tac current; simp)+
  done

text \<open>
  The chain the loop walks: the element and its ancestors, nearest first, up to but
  not including \<^verbatim>\<open>document.body\<close> (or up to the last element when the body is not
  among them). It serves to state the properties of the resolver.
\<close>

function (sequential) walkedChain :: "element option \<Rightarrow> element list" where
  "walkedChain None = []"
| "walkedChain (Some current) =
     (if isBody current then [] else current # walkedChain (parentElement current))"
  by pat_completeness auto
termination
  apply (relation "measure (size_option size)")
   apply simp
  apply (case_tac current; simp)
  done

text \<open>An element whose parsed background paints something: the test
  \<^verbatim>\<open>bgColor && bgColor.a > 0\<close>.\<close>

definition paintsBackground :: "element \<Rightarrow> bool" where
  "paintsBackground e =
     (case styleBackgroundColor e of None \<Rightarrow> False | Some bgColor \<Rightarrow> col_a bgColor > 0)"

section \<open>Contrast requirements\<close>

text \<open>\<^verbatim>\<open>config.wcag\<close>, lines 6-22.\<close>

record contrastRatios_cfg =
  normalTextAA :: real
  normalTextAAA :: real
  largeTextAA :: real
  largeTextAAA :: real
  nonTextAA :: real
  nonTextAAA :: real

record textSizes_cfg =
  large :: real
  largeWeightBold :: real

record wcag_cfg =
  contrastRatios :: contrastRatios_cfg
  textSizes :: textSizes_cfg

definition config_wcag :: wcag_cfg where
  "config_wcag =
     \<lparr> contrastRatios =
         \<lparr> normalTextAA = 4.5, normalTextAAA = 7.0, largeTextAA = 3.0, largeTextAAA = 4.5,
           nonTextAA = 3.0, nonTextAAA = 4.5 \<rparr>,
       textSizes = \<lparr> large = 18, largeWeightBold = 14 \<rparr> \<rparr>"

text \<open>
  \<^verbatim>\<open>parseInt(string)\<close> with no radix: leading white space is skipped, a sign is
  read, a prefix \<^verbatim>\<open>0x\<close> or \<^verbatim>\<open>0X\<close> selects base 16, and the longest run of digits
  is the value; with no digit the result is \<^verbatim>\<open>NaN\<close>, here \<open>None\<close>.
\<close>

definition isWhiteSpace :: "char \<Rightarrow> bool" where
  "isWhiteSpace ch \<longleftrightarrow> ch \<in> set [CHR '' '', CHR 0x09, CHR 0x0A, CHR 0x0B, CHR 0x0C, CHR 0x0D]"

definition digitValue :: "char \<Rightarrow> nat option" where
  "digitValue ch =
     (let n = of_char ch :: nat in
      if 48 \<le> n \<and> n \<le> 57 then Some (n - 48)
      else if 97 \<le> n \<and> n \<le> 102 then Some (n - 87)
      else if 65 \<le> n \<and> n \<le> 70 then Some (n - 55)
      else None)"

definition isDigitIn :: "nat \<Rightarrow> char \<Rightarrow> bool" where
  "isDigitIn radix ch = (case digitValue ch of None \<Rightarrow> False | Some d \<Rightarrow> d < radix)"

definition digitsValue :: "nat \<Rightarrow> string \<Rightarrow> nat" where
  "digitsValue radix ds = foldl (\<lambda>acc ch. acc * radix + (case digitValue ch of None \<Rightarrow> 0 | Some d \<Rightarrow> d)) 0 ds"

definition parseInt :: "string \<Rightarrow> int option" where
  "parseInt s =
     (let s1 = dropWhile isWhiteSpace s;
          negative = (take 1 s1 = ''-'');
          s2 = (if take 1 s1 = ''-'' \<or> take 1 s1 = ''+'' then drop 1 s1 else s1);
          hex = (take 2 s2 = ''0x'' \<or> take 2 s2 = ''0X'');
          radix = (if hex then 16 else 10);
          s3 = (if hex then drop 2 s2 else s2);
          ds = takeWhile (isDigitIn radix) s3
      in if ds = [] then None
         else Some ((if negative then - 1 else 1) * int (digitsValue radix ds)))"

datatype requirement_type = NonText | LargeText | NormalText

record requirements =
  req_type :: requirement_type
  req_aa :: real
  req_aaa :: real

text \<open>\<^verbatim>\<open>getFontSizeInPt(computedStyle)\<close>, lines 236-240, on the parsed font size.\<close>

definition getFontSizeInPt :: "real \<Rightarrow> real" where
  "getFontSizeInPt fontSize = fontSize * 0.75"

text \<open>\<^verbatim>\<open>getContrastRequirements(fontSize, fontWeight, element)\<close>, lines 243-273;
  a comparison with \<^verbatim>\<open>NaN\<close> is false.\<close>

definition isLargeText :: "real \<Rightarrow> string \<Rightarrow> bool" where
  "isLargeText fontSize fontWeight \<longleftrightarrow>
     fontSize \<ge> large (textSizes config_wcag) \<or>
     (fontSize \<ge> largeWeightBold (textSizes config_wcag) \<and>
      (fontWeight = ''bold'' \<or>
       (case parseInt fontWeight of None \<Rightarrow> False | Some w \<Rightarrow> w \<ge> 700)))"

definition isNonText :: "element \<Rightarrow> bool" where
  "isNonText e \<longleftrightarrow>
     tagName e = ''BUTTON'' \<or>
     (case roleAttr e of None \<Rightarrow> False
      | Some role \<Rightarrow> role \<in> set [''button'', ''tab'', ''menuitem''])"

definition getContrastRequirements :: "real \<Rightarrow> string \<Rightarrow> element \<Rightarrow> requirements" where
  "getContrastRequirements fontSize fontWeight e =
     (if isNonText e then
        \<lparr> req_type = NonText, req_aa = nonTextAA (contrastRatios config_wcag),
          req_aaa = nonTextAAA (contrastRatios config_wcag) \<rparr>
      else if isLargeText fontSize fontWeight then
        \<lparr> req_type = LargeText, req_aa = largeTextAA (contrastRatios config_wcag),
          req_aaa = largeTextAAA (contrastRatios config_wcag) \<rparr>
      else
        \<lparr> req_type = NormalText, req_aa = normalTextAA (contrastRatios config_wcag),
          req_aaa = normalTextAAA (contrastRatios config_wcag) \<rparr>)"

text \<open>\<^verbatim>\<open>checkWCAGCompliance(contrastRatio, requirements)\<close>, lines 276-283.\<close>

record wcag_results =
  wr_ratio :: real
  wr_passAA :: bool
  wr_passAAA :: bool
  wr_requirements :: requirements

definition checkWCAGCompliance :: "real \<Rightarrow> requirements \<Rightarrow> wcag_results" where
  "checkWCAGCompliance contrastRatio reqs =
     \<lparr> wr_ratio = contrastRatio,
       wr_passAA = (contrastRatio \<ge> req_aa reqs),
       wr_passAAA = (contrastRatio \<ge> req_aaa reqs),
       wr_requirements = reqs \<rparr>"

section \<open>Colour adjustment solver\<close>

text \<open>
  \<^verbatim>\<open>adjustColorForContrast(color, bgColor, targetRatio, direction)\<close>, lines
  1211-1237. \<open>shiftColor\<close> is the body of one iteration: with
  \<^verbatim>\<open>step = direction === 'darken' ? -10 : 10\<close>, the branch for \<^verbatim>\<open>'darken'\<close> takes
  \<^verbatim>\<open>Math.max(0, channel + step)\<close> and the other branch
  \<^verbatim>\<open>Math.min(255, channel + step)\<close>. \<open>adjustLoop\<close> is the \<^verbatim>\<open>while\<close> loop on the
  variables \<^verbatim>\<open>adjustedColor\<close>, \<^verbatim>\<open>currentRatio\<close> and \<^verbatim>\<open>iterations\<close>; it yields the
  colour together with the final value of \<^verbatim>\<open>iterations\<close>.
\<close>

definition maxIterations :: nat where
  "maxIterations = 25"

definition shiftColor :: "string \<Rightarrow> color \<Rightarrow> color" where
  "shiftColor direction adjustedColor =
     (let step = (if direction = ''darken'' then - 10 else 10) in
      if direction = ''darken'' then
        adjustedColor \<lparr> col_r := max 0 (col_r adjustedColor + step),
                        col_g := max 0 (col_g adjustedColor + step),
                        col_b := max 0 (col_b adjustedColor + step) \<rparr>
      else
        adjustedColor \<lparr> col_r := min 255 (col_r adjustedColor + step),
                        col_g := min 255 (col_g adjustedColor + step),
                        col_b := min 255 (col_b adjustedColor + step) \<rparr>)"

function adjustLoop :: "color \<Rightarrow> real \<Rightarrow> string \<Rightarrow> color \<Rightarrow> real \<Rightarrow> nat \<Rightarrow> color \<times> nat" where
  "adjustLoop bgColor targetRatio direction adjustedColor currentRatio iterations =
     (if currentRatio < targetRatio \<and> iterations < maxIterations then
        let adjustedColor' = shiftColor direction adjustedColor
        in adjustLoop bgColor targetRatio direction adjustedColor'
             (calculateContrastRatio adjustedColor' bgColor) (iterations + 1)
      else (adjustedColor, iterations))"
  by pat_completeness auto
termination
  by (relation "measure (\<lambda>(bg, t, d, c, q, i). maxIterations - i)") auto

definition adjustColorForContrast :: "color \<Rightarrow> color \<Rightarrow> real \<Rightarrow> string \<Rightarrow> color" where
  "adjustColorForContrast c bgColor targetRatio direction =
     fst (adjustLoop bgColor targetRatio direction c (calculateContrastRatio c bgColor) 0)"

text \<open>The number of iterations the loop of \<^verbatim>\<open>adjustColorForContrast\<close> runs.\<close>

definition adjustIterations :: "color \<Rightarrow> color \<Rightarrow> real \<Rightarrow> string \<Rightarrow> nat" where
  "adjustIterations c bgColor targetRatio direction =
     snd (adjustLoop bgColor targetRatio direction c (calculateContrastRatio c bgColor) 0)"

text \<open>Clamping to 0..255, as the specification words each step.\<close>

definition clampChannel :: "real \<Rightarrow> real" where
  "clampChannel x = max 0 (min 255 x)"

section \<open>Contrast analysis and issue synthesis\<close>

datatype severity = Critical | Warning | Info

text \<open>The object \<^verbatim>\<open>data\<close> handed to \<^verbatim>\<open>addContrastIssue\<close> (the style object
  \<^verbatim>\<open>computedStyle\<close> it also carries is not read again).\<close>

record contrast_data =
  cd_textColor :: color
  cd_backgroundColor :: color
  cd_contrastRatio :: real
  cd_fontSize :: real
  cd_fontWeight :: string
  cd_requirements :: requirements
  cd_wcagResults :: wcag_results

record contrast_issue =
  ci_element :: element
  ci_severity :: severity
  ci_type :: string
  ci_data :: contrast_data

text \<open>
  The record pushed by \<^verbatim>\<open>createFixableIssue\<close>, lines 1248-1272: type, severity and
  affected elements, and the two colours of \<^verbatim>\<open>suggestContrastFix\<close> before they are
  printed by \<^verbatim>\<open>colorToHex\<close>. The descriptive strings and the lookup tables keyed by
  the type are left out.
\<close>

record fixable_issue =
  fi_issueType :: string
  fi_severity :: severity
  fi_elements :: "element list"
  fi_darkerText :: color
  fi_lighterBg :: color

record analyzer_state =
  contrastIssues :: "contrast_issue list"
  fixableIssues :: "fixable_issue list"

text \<open>\<^verbatim>\<open>suggestContrastFix(data)\<close>, lines 1163-1181.\<close>

definition suggestContrastFix :: "contrast_data \<Rightarrow> color \<times> color" where
  "suggestContrastFix d =
     (let requiredRatio = req_aa (cd_requirements d);
          darkerText = adjustColorForContrast (cd_textColor d) (cd_backgroundColor d)
                         requiredRatio ''darken'';
          lighterBg = adjustColorForContrast (cd_backgroundColor d) (cd_textColor d)
                        requiredRatio ''lighten''
      in (darkerText, lighterBg))"

text \<open>
  \<^verbatim>\<open>createFixableIssue(type, severity, elements, currentValues, suggestedFix,
  reasoning)\<close>, lines 1248-1272: the record is pushed after the selectors of all
  elements have been generated; an exception of \<^verbatim>\<open>generateSelector\<close> leaves the state
  as it was.
\<close>

definition createFixableIssue ::
  "(ustring \<Rightarrow> bool) \<Rightarrow> analyzer_state \<Rightarrow> string \<Rightarrow> severity \<Rightarrow> element list
     \<Rightarrow> color \<times> color \<Rightarrow> analyzer_state outcome" where
  "createFixableIssue parses st issueType sev elements suggestedFix =
     (case selectorsOf parses (map (\<lambda>e. (tagName e, elementId e, className e)) elements) of
        Inl err \<Rightarrow> Inl (err, st)
      | Inr selectors \<Rightarrow>
          Inr (st \<lparr> fixableIssues := fixableIssues st @
                 [\<lparr> fi_issueType = issueType, fi_severity = sev, fi_elements = elements,
                    fi_darkerText = fst suggestedFix, fi_lighterBg = snd suggestedFix \<rparr>] \<rparr>))"

text \<open>\<^verbatim>\<open>addContrastIssue(element, data)\<close>, lines 1023-1046: the push to
  \<^verbatim>\<open>state.contrastIssues\<close> comes first, then the call of \<^verbatim>\<open>createFixableIssue\<close>.\<close>

definition addContrastIssue ::
  "(ustring \<Rightarrow> bool) \<Rightarrow> analyzer_state \<Rightarrow> element \<Rightarrow> contrast_data \<Rightarrow> analyzer_state outcome" where
  "addContrastIssue parses st e d =
     (let sev = (if \<not> wr_passAA (cd_wcagResults d) then Critical else Warning);
          issueType = (if wr_passAA (cd_wcagResults d) then ''contrast-aaa'' else ''contrast-aa'');
          st1 = st \<lparr> contrastIssues := contrastIssues st @
                 [\<lparr> ci_element = e, ci_severity = sev, ci_type = ''contrast'', ci_data = d \<rparr>] \<rparr>
      in createFixableIssue parses st1 issueType sev [e] (suggestContrastFix d))"

text \<open>
  The tests at the head of the callback of \<^verbatim>\<open>analyzeColorContrast\<close>, lines 92-97:
  an element is skipped when it has no text, is one of five tags, or has no layout
  box.
\<close>

definition skipped :: "element \<Rightarrow> bool" where
  "skipped e \<longleftrightarrow>
     (trim (textContent e) = [] \<or>
      tagName e \<in> set [''SCRIPT'', ''STYLE'', ''META'', ''LINK'', ''HEAD'']) \<or>
     (offsetParentNull e \<and> tagName e \<noteq> ''HTML'')"

text \<open>The callback of \<^verbatim>\<open>analyzeColorContrast\<close>, lines 90-130, on one element. The
  resolver never returns \<^verbatim>\<open>null\<close>, so only a missing text colour ends the callback
  at line 105.\<close>

definition analyzeElement ::
  "(ustring \<Rightarrow> bool) \<Rightarrow> analyzer_state \<Rightarrow> element \<Rightarrow> analyzer_state outcome" where
  "analyzeElement parses st e =
     (if skipped e then Inr st
      else case styleColor e of
        None \<Rightarrow> Inr st
      | Some textColor \<Rightarrow>
          let backgroundColor = getEffectiveBackgroundColor (Some e);
              contrastRatio = calculateContrastRatio textColor backgroundColor;
              fontSize = getFontSizeInPt (styleFontSize e);
              fontWeight = styleFontWeight e;
              reqs = getContrastRequirements fontSize fontWeight e;
              wcagResults = checkWCAGCompliance contrastRatio reqs
          in if \<not> wr_passAA wcagResults \<or> \<not> wr_passAAA wcagResults then
               addContrastIssue parses st e
                 \<lparr> cd_textColor = textColor, cd_backgroundColor = backgroundColor,
                   cd_contrastRatio = contrastRatio, cd_fontSize = fontSize,
                   cd_fontWeight = fontWeight, cd_requirements = reqs,
                   cd_wcagResults = wcagResults \<rparr>
             else Inr st)"

text \<open>\<^verbatim>\<open>analyzeColorContrast()\<close>, lines 85-131, over the elements of
  \<^verbatim>\<open>document.querySelectorAll('*')\<close> in document order.\<close>

definition analyzeColorContrast ::
  "(ustring \<Rightarrow> bool) \<Rightarrow> analyzer_state \<Rightarrow> element list \<Rightarrow> analyzer_state outcome" where
  "analyzeColorContrast parses st textElements = forEachE (analyzeElement parses) st textElements"

section \<open>Typography analyser (code.js)\<close>

text \<open>
  A JavaScript number as \<^verbatim>\<open>parseFloat\<close> and the division produce it: \<^verbatim>\<open>NaN\<close>, the
  two infinities, or a finite double (the sign of zero is not modelled).
\<close>

datatype jsnum = NaN | NegInf | Fin real | PosInf

fun jsDiv :: "jsnum \<Rightarrow> jsnum \<Rightarrow> jsnum" where
  "jsDiv NaN _ = NaN"
| "jsDiv _ NaN = NaN"
| "jsDiv (Fin x) (Fin y) =
     (if y = 0 then (if x = 0 then NaN else if x > 0 then PosInf else NegInf)
      else Fin (toDouble (x / y)))"
| "jsDiv (Fin x) _ = Fin 0"
| "jsDiv PosInf (Fin y) = (if y \<ge> 0 then PosInf else NegInf)"
| "jsDiv NegInf (Fin y) = (if y \<ge> 0 then NegInf else PosInf)"
| "jsDiv _ _ = NaN"

fun jsLess :: "jsnum \<Rightarrow> jsnum \<Rightarrow> bool" where
  "jsLess NaN _ = False"
| "jsLess _ NaN = False"
| "jsLess (Fin x) (Fin y) = (x < y)"
| "jsLess NegInf NegInf = False"
| "jsLess NegInf _ = True"
| "jsLess PosInf _ = False"
| "jsLess (Fin x) NegInf = False"
| "jsLess (Fin x) PosInf = True"

text \<open>
  \<^verbatim>\<open>parseFloat(string)\<close>: leading white space is skipped, a sign is read, then
  either \<^verbatim>\<open>Infinity\<close> or the longest decimal literal (digits, an optional fraction,
  an optional exponent with at least one digit); what follows is ignored. The value
  of the literal is rounded to a double. With no digit at all the result is
  \<^verbatim>\<open>NaN\<close>.
\<close>

definition scale10 :: "real \<Rightarrow> int \<Rightarrow> real" where
  "scale10 x e = (if e \<ge> 0 then x * 10 ^ nat e else x / 10 ^ nat (- e))"

definition parseExponent :: "string \<Rightarrow> int" where
  "parseExponent s =
     (if take 1 s = ''e'' \<or> take 1 s = ''E'' then
        let s1 = drop 1 s;
            negative = (take 1 s1 = ''-'');
            s2 = (if take 1 s1 = ''-'' \<or> take 1 s1 = ''+'' then drop 1 s1 else s1);
            ds = takeWhile (isDigitIn 10) s2
        in if ds = [] then 0
           else (if negative then - 1 else 1) * int (digitsValue 10 ds)
      else 0)"

definition parseFloat :: "string \<Rightarrow> jsnum" where
  "parseFloat s =
     (let s1 = dropWhile isWhiteSpace s;
          negative = (take 1 s1 = ''-'');
          s2 = (if take 1 s1 = ''-'' \<or> take 1 s1 = ''+'' then drop 1 s1 else s1)
      in if take 8 s2 = ''Infinity'' then (if negative then NegInf else PosInf)
         else
           let intDigits = takeWhile (isDigitIn 10) s2;
               s3 = dropWhile (isDigitIn 10) s2;
               hasPoint = (take 1 s3 = ''.'');
               fracDigits = (if hasPoint then takeWhile (isDigitIn 10) (drop 1 s3) else []);
               s4 = (if hasPoint then dropWhile (isDigitIn 10) (drop 1 s3) else s3)
           in if intDigits = [] \<and> fracDigits = [] then NaN
              else
                let mantissa = real (digitsValue 10 intDigits)
                                 + real (digitsValue 10 fracDigits) / 10 ^ length fracDigits;
                    v = scale10 mantissa (parseExponent s4)
                in Fin (toDouble (if negative then - v else v)))"

text \<open>\<^verbatim>\<open>String.prototype.includes\<close>.\<close>

fun includesStr :: "string \<Rightarrow> string \<Rightarrow> bool" where
  "includesStr [] sub = (sub = [])"
| "includesStr (x # xs) sub = (take (length sub) (x # xs) = sub \<or> includesStr xs sub)"

text \<open>\<^verbatim>\<open>config\<close>, lines 6-12; the two ratios are the doubles of the literals.\<close>

record typography_cfg =
  minLineHeightRatio :: real
  maxLineHeightRatio :: real
  suspiciousWeights :: "string list"
  commonFontSizes :: "string list"
  redundancyThreshold :: nat

definition config :: typography_cfg where
  "config =
     \<lparr> minLineHeightRatio = toDouble 1.2, maxLineHeightRatio = toDouble 1.8,
       suspiciousWeights = [''100'', ''200'', ''800'', ''900''],
       commonFontSizes = [''12px'', ''14px'', ''16px'', ''18px'', ''20px'', ''24px'', ''32px''],
       redundancyThreshold = 1 \<rparr>"

text \<open>
  What the typography analyser reads of an element: its tag name, its \<^verbatim>\<open>id\<close> and
  \<^verbatim>\<open>className\<close> (as for the contrast analyser), whether \<^verbatim>\<open>offsetParent\<close> is
  \<^verbatim>\<open>null\<close>, and four strings of its computed style.
\<close>

record styled_element =
  se_tagName :: string
  se_id :: ustring
  se_className :: "ustring option"
  se_offsetParentNull :: bool
  se_fontFamily :: string
  se_fontSize :: string
  se_fontWeight :: string
  se_lineHeight :: string

text \<open>The object \<^verbatim>\<open>fontMetrics\<close> (the fields the analysis reads, and the element)
  and an entry of \<^verbatim>\<open>state.fontMap\<close>.\<close>

record font_metrics =
  fm_fontFamily :: string
  fm_fontSize :: string
  fm_fontWeight :: string
  fm_lineHeight :: string
  fm_element :: styled_element

record bucket =
  bk_metrics :: font_metrics
  bk_elements :: "styled_element list"
  bk_count :: nat

text \<open>
  \<^verbatim>\<open>state.fontMap\<close> is a \<^verbatim>\<open>Map\<close>, which keeps its keys in insertion order: an
  association list with distinct keys, a new key going to the end.
\<close>

type_synonym fontMap = "(string \<times> bucket) list"

definition mapHas :: "fontMap \<Rightarrow> string \<Rightarrow> bool" where
  "mapHas m key \<longleftrightarrow> key \<in> fst ` set m"

definition mapSet :: "fontMap \<Rightarrow> string \<Rightarrow> bucket \<Rightarrow> fontMap" where
  "mapSet m key v =
     (if mapHas m key then map (\<lambda>(k, b). if k = key then (k, v) else (k, b)) m
      else m @ [(key, v)])"

text \<open>The entry returned by \<^verbatim>\<open>get(key)\<close> is an object of the map, and the callback
  mutates it: the map with the entry under \<open>key\<close> changed by \<open>f\<close>.\<close>

fun mapModify :: "string \<Rightarrow> (bucket \<Rightarrow> bucket) \<Rightarrow> fontMap \<Rightarrow> fontMap" where
  "mapModify key f [] = []"
| "mapModify key f ((k, entry) # m) =
     (k, if k = key then f entry else entry) # mapModify key f m"

text \<open>The key of an element: the template string of line 44.\<close>

definition styleKey :: "string \<Rightarrow> string \<Rightarrow> string \<Rightarrow> string \<Rightarrow> string" where
  "styleKey fontFamily fontSize fontWeight lineHeight =
     fontFamily @ ''|'' @ fontSize @ ''|'' @ fontWeight @ ''|'' @ lineHeight"

definition elementKey :: "styled_element \<Rightarrow> string" where
  "elementKey e = styleKey (se_fontFamily e) (se_fontSize e) (se_fontWeight e) (se_lineHeight e)"

text \<open>The callback of \<^verbatim>\<open>collectTypographyData\<close>, lines 26-57: the entry fetched by
  \<^verbatim>\<open>get(key)\<close> gets the element pushed and its count incremented.\<close>

definition collectElement :: "fontMap \<Rightarrow> styled_element \<Rightarrow> fontMap" where
  "collectElement m e =
     (if se_offsetParentNull e \<and> se_tagName e \<noteq> ''HTML'' then m
      else
        let fontMetrics = \<lparr> fm_fontFamily = se_fontFamily e, fm_fontSize = se_fontSize e,
                            fm_fontWeight = se_fontWeight e, fm_lineHeight = se_lineHeight e,
                            fm_element = e \<rparr>;
            key = styleKey (fm_fontFamily fontMetrics) (fm_fontSize fontMetrics)
                    (fm_fontWeight fontMetrics) (fm_lineHeight fontMetrics);
            m1 = (if \<not> mapHas m key
                  then mapSet m key \<lparr> bk_metrics = fontMetrics, bk_elements = [], bk_count = 0 \<rparr>
                  else m)
        in mapModify key
             (\<lambda>entry. entry \<lparr> bk_elements := bk_elements entry @ [e],
                                bk_count := bk_count entry + 1 \<rparr>) m1)"

text \<open>The selector \<^verbatim>\<open>*:not(script):not(style):not(meta):not(link)\<close>.\<close>

definition selected :: "styled_element \<Rightarrow> bool" where
  "selected e \<longleftrightarrow>
     toLowerCase (se_tagName e) \<notin> set [''script'', ''style'', ''meta'', ''link'']"

text \<open>\<^verbatim>\<open>collectTypographyData()\<close>, lines 23-58, on the elements of the document in
  document order.\<close>

definition collectTypographyData :: "fontMap \<Rightarrow> styled_element list \<Rightarrow> fontMap" where
  "collectTypographyData m document = foldl collectElement m (filter selected document)"

text \<open>
  The record pushed by \<^verbatim>\<open>createFixableIssue\<close> of code.js, lines 97-115: type, severity
  and affected elements; and the record pushed by \<^verbatim>\<open>addIssue\<close>, lines 264-273:
  severity and elements. The CSS values, titles and descriptions are left out.
\<close>

record typography_issue =
  ti_issueType :: string
  ti_severity :: severity
  ti_elements :: "styled_element list"

record listed_issue =
  li_severity :: severity
  li_elements :: "styled_element list"

record typography_state =
  ts_issues :: "listed_issue list"
  ts_fixableIssues :: "typography_issue list"

definition addIssue :: "typography_state \<Rightarrow> severity \<Rightarrow> styled_element list \<Rightarrow> typography_state" where
  "addIssue st sev elements =
     st \<lparr> ts_issues := ts_issues st @ [\<lparr> li_severity = sev, li_elements = elements \<rparr>] \<rparr>"

text \<open>\<^verbatim>\<open>createFixableIssue\<close> of code.js: as in the contrast analyser, the record is
  pushed after the selectors of all elements have been generated.\<close>

definition typographyCreateFixableIssue ::
  "(ustring \<Rightarrow> bool) \<Rightarrow> typography_state \<Rightarrow> typography_issue \<Rightarrow> typography_state outcome" where
  "typographyCreateFixableIssue parses st issue =
     (case selectorsOf parses
             (map (\<lambda>e. (se_tagName e, se_id e, se_className e)) (ti_elements issue)) of
        Inl err \<Rightarrow> Inl (err, st)
      | Inr selectors \<Rightarrow> Inr (st \<lparr> ts_fixableIssues := ts_fixableIssues st @ [issue] \<rparr>))"

text \<open>
  The callback of \<^verbatim>\<open>analyzeIssues\<close>, lines 144-243, on one entry of the map, has five
  tests in a row; each, when it holds, calls \<^verbatim>\<open>addIssue\<close> and then
  \<^verbatim>\<open>createFixableIssue\<close>. The tests read the entry and the configuration only:
  \<open>triggered\<close> lists the issues whose test holds, in the order of the source, and
  \<open>reportAll\<close> makes the two calls for each, up to the first exception.
\<close>

definition triggered :: "typography_cfg \<Rightarrow> bucket \<Rightarrow> typography_issue list" where
  "triggered cfg entry =
     (let elements = bk_elements entry;
          fontSize = fm_fontSize (bk_metrics entry);
          lineHeight = fm_lineHeight (bk_metrics entry);
          fontWeight = fm_fontWeight (bk_metrics entry);
          fontFamily = fm_fontFamily (bk_metrics entry);
          fontSizeNum = parseFloat fontSize;
          lineHeightNum = parseFloat lineHeight;
          lineHeightRatio = jsDiv lineHeightNum fontSizeNum;
          familyLower = toLowerCase fontFamily
      in (if jsLess lineHeightRatio (Fin (minLineHeightRatio cfg)) then
            [\<lparr> ti_issueType = ''line-height-too-small'', ti_severity = Critical,
               ti_elements = elements \<rparr>]
          else if jsLess (Fin (maxLineHeightRatio cfg)) lineHeightRatio then
            [\<lparr> ti_issueType = ''line-height-too-large'', ti_severity = Warning,
               ti_elements = elements \<rparr>]
          else [])
         @ (if fontWeight \<in> set (suspiciousWeights cfg) then
              [\<lparr> ti_issueType = ''extreme-font-weight'', ti_severity = Warning,
                 ti_elements = elements \<rparr>]
            else [])
         @ (if bk_count entry \<le> redundancyThreshold cfg then
              [\<lparr> ti_issueType = ''redundant-style'', ti_severity = Info,
                 ti_elements = elements \<rparr>]
            else [])
         @ (if includesStr familyLower ''serif'' \<and> includesStr familyLower ''sans'' then
              [\<lparr> ti_issueType = ''mixed-font-families'', ti_severity = Warning,
                 ti_elements = elements \<rparr>]
            else [])
         @ (if fontSize \<notin> set (commonFontSizes cfg) \<and> jsLess (Fin 10) fontSizeNum then
              [\<lparr> ti_issueType = ''non-standard-size'', ti_severity = Info,
                 ti_elements = elements \<rparr>]
            else []))"

definition report ::
  "(ustring \<Rightarrow> bool) \<Rightarrow> typography_state \<Rightarrow> typography_issue \<Rightarrow> typography_state outcome" where
  "report parses st issue =
     typographyCreateFixableIssue parses
       (addIssue st (ti_severity issue) (ti_elements issue)) issue"

definition reportAll ::
  "(ustring \<Rightarrow> bool) \<Rightarrow> typography_state \<Rightarrow> typography_issue list \<Rightarrow> typography_state outcome" where
  "reportAll parses st found = forEachE (report parses) st found"

definition analyzeBucket ::
  "(ustring \<Rightarrow> bool) \<Rightarrow> typography_cfg \<Rightarrow> typography_state \<Rightarrow> bucket \<Rightarrow> typography_state outcome" where
  "analyzeBucket parses cfg st entry = reportAll parses st (triggered cfg entry)"

text \<open>\<^verbatim>\<open>analyzeIssues()\<close>, lines 143-244: the entries in insertion order, up to the
  first exception.\<close>

definition analyzeIssues ::
  "(ustring \<Rightarrow> bool) \<Rightarrow> typography_cfg \<Rightarrow> fontMap \<Rightarrow> typography_state \<Rightarrow> typography_state outcome" where
  "analyzeIssues parses cfg m st =
     forEachE (\<lambda>st' (key, entry). analyzeBucket parses cfg st' entry) st m"

text \<open>The part of \<^verbatim>\<open>run()\<close>, lines 618-629, that clears the state, collects and
  analyses; an exception of \<^verbatim>\<open>analyzeIssues\<close> ends \<^verbatim>\<open>run()\<close>.\<close>

definition run ::
  "(ustring \<Rightarrow> bool) \<Rightarrow> styled_element list \<Rightarrow> fontMap \<times> typography_state outcome" where
  "run parses document =
     (let m = collectTypographyData [] document
      in (m, analyzeIssues parses config m \<lparr> ts_issues = [], ts_fixableIssues = [] \<rparr>))"

section \<open>Notions used to state the properties\<close>

text \<open>
  The parsed colour of the nearest element, the element itself first and then its
  ancestors up to the root of the tree, whose background has alpha 1.
\<close>

function (sequential) nearestOpaque :: "element option \<Rightarrow> color option" where
  "nearestOpaque None = None"
| "nearestOpaque (Some current) =
     (case styleBackgroundColor current of
        Some bgColor \<Rightarrow>
          if col_a bgColor = 1 then Some bgColor else nearestOpaque (parentElement current)
      | None \<Rightarrow> nearestOpaque (parentElement current))"
  by pat_completeness auto
termination
  apply (relation "measure (size_option size)")
    apply simp
   apply (case_tac current; simp)+
  done



text \<open>The elements that \<^verbatim>\<open>collectTypographyData\<close> puts into the map: those the
  selector matches and the visibility test lets through.\<close>

definition visible :: "styled_element \<Rightarrow> bool" where
  "visible e \<longleftrightarrow> \<not> (se_offsetParentNull e \<and> se_tagName e \<noteq> ''HTML'')"

definition collected :: "styled_element list \<Rightarrow> styled_element list" where
  "collected document = filter visible (filter selected document)"

definition sameBucket :: "fontMap \<Rightarrow> styled_element \<Rightarrow> styled_element \<Rightarrow> bool" where
  "sameBucket m e1 e2 \<longleftrightarrow>
     (\<exists>(k, b) \<in> set m. e1 \<in> set (bk_elements b) \<and> e2 \<in> set (bk_elements b))"

definition fingerprint :: "styled_element \<Rightarrow> string \<times> string \<times> string \<times> string" where
  "fingerprint e = (se_fontFamily e, se_fontSize e, se_fontWeight e, se_lineHeight e)"

text \<open>
  A computed font size, font weight or line height is a number with a unit, a number or
  a keyword; none contains the separator of the key. (A font family may: a quoted
  family name is any string.)
\<close>

definition barFree :: "styled_element \<Rightarrow> bool" where
  "barFree e \<longleftrightarrow>
     CHR ''|'' \<notin> set (se_fontSize e) \<and> CHR ''|'' \<notin> set (se_fontWeight e)
     \<and> CHR ''|'' \<notin> set (se_lineHeight e)"

text \<open>The elements for which \<^verbatim>\<open>generateSelector\<close> throws.\<close>

definition selectorThrows :: "(ustring \<Rightarrow> bool) \<Rightarrow> styled_element \<Rightarrow> bool" where
  "selectorThrows parses e \<longleftrightarrow>
     isl (generateSelector parses (se_tagName e) (se_id e) (se_className e))"


text \<open>The invariant of the map while the elements \<open>xs\<close> have been collected: keys are
  distinct, the entry under a key holds exactly the elements with that key, in order,
  and counts them, and every collected element has its entry.\<close>

definition bucketsOf :: "fontMap \<Rightarrow> styled_element list \<Rightarrow> bool" where
  "bucketsOf m xs \<longleftrightarrow>
     distinct (map fst m)
     \<and> (\<forall>(k, b) \<in> set m. bk_elements b = filter (\<lambda>e. elementKey e = k) xs
           \<and> bk_elements b \<noteq> [] \<and> bk_count b = length (bk_elements b))
     \<and> (\<forall>e \<in> set xs. elementKey e \<in> fst ` set m)"

section \<open>Example documents\<close>

definition transparent :: color where
  "transparent = \<lparr> col_r = 0, col_g = 0, col_b = 0, col_a = 0 \<rparr>"


text \<open>
  A parser for the selectors of the examples, in place of the browser's: it refuses a
  selector with a colon or a slash in it, as the browser refuses \<^verbatim>\<open>div.md:flex\<close> and
  \<^verbatim>\<open>div.w-1/2\<close>, and takes the selectors \<^verbatim>\<open>p\<close>, \<^verbatim>\<open>span\<close>, \<^verbatim>\<open>h1\<close> and
  \<^verbatim>\<open>div.card\<close>.
\<close>

definition exampleParser :: "ustring \<Rightarrow> bool" where
  "exampleParser selector \<longleftrightarrow> 58 \<notin> set selector \<and> 47 \<notin> set selector"

text \<open>A body with the initial transparent background, and a paragraph in it.\<close>

definition plainBody :: element where
  "plainBody =
     Element ''BODY'' [] (Some []) (ustr ''text'') False True None (Some black)
       (Some transparent) 16 ''400'' None"

definition paragraph16 :: element where
  "paragraph16 =
     Element ''P'' [] (Some []) (ustr ''text'') False False None (Some black)
       (Some transparent) 16 ''400'' (Some plainBody)"

definition heading24 :: element where
  "heading24 =
     Element ''H1'' [] (Some []) (ustr ''text'') False False None (Some black)
       (Some transparent) 24 ''400'' (Some plainBody)"

definition tabLink :: element where
  "tabLink =
     Element ''A'' [] (Some []) (ustr ''text'') False False (Some ''tab'') (Some black)
       (Some transparent) 40 ''400'' (Some plainBody)"

text \<open>A span with a half-transparent red background inside a white card.\<close>

definition whiteCard :: element where
  "whiteCard =
     Element ''DIV'' [] (Some (ustr ''card'')) (ustr ''text'') False False None (Some black)
       (Some white) 16 ''400'' (Some plainBody)"

definition pinkOnWhite :: element where
  "pinkOnWhite =
     Element ''SPAN'' [] (Some []) (ustr ''text'') False False None (Some black)
       (Some \<lparr> col_r = 255, col_g = 0, col_b = 0, col_a = 0.5 \<rparr>) 16 ''400''
       (Some whiteCard)"

definition onWhiteCard :: element where
  "onWhiteCard =
     Element ''SPAN'' [] (Some []) (ustr ''text'') False False None (Some black)
       (Some transparent) 16 ''400'' (Some whiteCard)"

text \<open>A paragraph in a body with an opaque black background.\<close>

definition darkBody :: element where
  "darkBody =
     Element ''BODY'' [] (Some []) (ustr ''text'') False True None (Some white) (Some black)
       16 ''400'' None"

definition inDarkBody :: element where
  "inDarkBody =
     Element ''P'' [] (Some []) (ustr ''text'') False False None (Some white)
       (Some transparent) 16 ''400'' (Some darkBody)"




definition noBreakSpaceOnly :: element where
  "noBreakSpaceOnly =
     Element ''P'' [] (Some []) [160] False False None (Some white)
       (Some transparent) 16 ''400'' (Some plainBody)"


text \<open>Three styled elements: a paragraph and a span with one style, a heading with
  another; and a \<^verbatim>\<open>div\<close> of class \<^verbatim>\<open>md:flex\<close> with the style of the paragraph.\<close>

definition styledP :: styled_element where
  "styledP = \<lparr> se_tagName = ''P'', se_id = [], se_className = Some [],
               se_offsetParentNull = False, se_fontFamily = ''Arial'',
               se_fontSize = ''16px'', se_fontWeight = ''400'', se_lineHeight = ''normal'' \<rparr>"

definition styledSpan :: styled_element where
  "styledSpan = \<lparr> se_tagName = ''SPAN'', se_id = [], se_className = Some [],
               se_offsetParentNull = False, se_fontFamily = ''Arial'',
               se_fontSize = ''16px'', se_fontWeight = ''400'', se_lineHeight = ''normal'' \<rparr>"

definition styledH1 :: styled_element where
  "styledH1 = \<lparr> se_tagName = ''H1'', se_id = [], se_className = Some [],
               se_offsetParentNull = False, se_fontFamily = ''Arial'',
               se_fontSize = ''32px'', se_fontWeight = ''700'', se_lineHeight = ''38px'' \<rparr>"

definition styledFlex :: styled_element where
  "styledFlex = \<lparr> se_tagName = ''DIV'', se_id = [], se_className = Some (ustr ''md:flex''),
               se_offsetParentNull = False, se_fontFamily = ''Arial'',
               se_fontSize = ''16px'', se_fontWeight = ''400'', se_lineHeight = ''normal'' \<rparr>"

definition exampleDocument :: "styled_element list" where
  "exampleDocument = [styledP, styledSpan, styledH1]"

definition flexDocument :: "styled_element list" where
  "flexDocument = [styledFlex, styledH1]"

text \<open>The entries of the map of the second document.\<close>

definition flexEntry :: bucket where
  "flexEntry =
     \<lparr> bk_metrics = \<lparr> fm_fontFamily = ''Arial'', fm_fontSize = ''16px'', fm_fontWeight = ''400'',
                      fm_lineHeight = ''normal'', fm_element = styledFlex \<rparr>,
       bk_elements = [styledFlex], bk_count = 1 \<rparr>"

definition headingEntry :: bucket where
  "headingEntry =
     \<lparr> bk_metrics = \<lparr> fm_fontFamily = ''Arial'', fm_fontSize = ''32px'', fm_fontWeight = ''700'',
                      fm_lineHeight = ''38px'', fm_element = styledH1 \<rparr>,
       bk_elements = [styledH1], bk_count = 1 \<rparr>"

definition emptyTypographyState :: typography_state where
  "emptyTypographyState = \<lparr> ts_issues = [], ts_fixableIssues = [] \<rparr>"

section \<open>Doubles that are kept by rounding\<close>

lemma roundHalfEven_int: "roundHalfEven (of_int n) = n"
  by (simp add: roundHalfEven_def)

lemma toDouble_zero: "toDouble 0 = 0"
  by (simp add: toDouble_def)

text \<open>A multiple \<open>m / 2\<^sup>j\<close> of a power of two below \<open>2\<^sup>5\<^sup>3\<^sup>-\<^sup>j\<close> is a
  double.\<close>

lemma toDouble_dyadic:
  assumes x: "x = of_int m / 2 ^ j" and b: "\<bar>x\<bar> < 2 ^ (53 - j)" and j: "j \<le> 53"
  shows "toDouble x = x"
proof (cases "x = 0")
  case True
  then show ?thesis by (simp add: toDouble_def)
next
  case False
  define e where "e = \<lfloor>log 2 \<bar>x\<bar>\<rfloor>"
  from False have pos: "0 < \<bar>x\<bar>" by simp
  have "log 2 \<bar>x\<bar> < real (53 - j)"
    using b pos by (simp add: log_less_iff powr_realpow)
  then have "e < int (53 - j)"
    unfolding e_def by (simp add: floor_less_iff)
  with j have k: "0 \<le> 52 - e - int j" by linarith
  define k where "k = nat (52 - e - int j)"
  from k have ek: "52 - e = int j + int k" by (simp add: k_def)
  have "(2::real) powr (of_int e - 52) = 2 powr (- of_int (52 - e))"
    by simp
  also have "\<dots> = 1 / 2 powr (of_int (52 - e))"
    by (rule powr_minus_divide)
  also have "(2::real) powr (of_int (52 - e)) = 2 ^ (j + k)"
    unfolding ek using powr_realpow [of 2 "j + k"] by simp
  finally have ulp: "2 powr (of_int e - 52) = 1 / (2::real) ^ (j + k)" .
  have q: "x / (2 powr (of_int e - 52)) = of_int (m * 2 ^ k)"
    unfolding ulp x by (simp add: power_add)
  have "toDouble x = of_int (roundHalfEven (x / (2 powr (of_int e - 52)))) * 2 powr (of_int e - 52)"
    using False by (simp add: toDouble_def e_def Let_def)
  also have "\<dots> = of_int (m * 2 ^ k) * 2 powr (of_int e - 52)"
    unfolding q roundHalfEven_int ..
  also have "\<dots> = x"
    unfolding ulp x by (simp add: power_add)
  finally show ?thesis .
qed

lemma toDouble_int:
  assumes "x \<in> \<int>" "\<bar>x\<bar> < 2 ^ 53"
  shows "toDouble x = x"
proof -
  from assms(1) obtain m where "x = of_int m" by (auto elim: Ints_cases)
  then have "x = of_int m / 2 ^ 0" by simp
  from toDouble_dyadic [OF this] assms(2) show ?thesis by simp
qed

lemma toDouble_channel:
  assumes "x \<in> \<int>" "0 \<le> x" "x \<le> 255"
  shows "toDouble x = x"
  using assms by (intro toDouble_int) simp_all

lemma toDouble_half: "toDouble (1 / 2) = 1 / 2"
  using toDouble_dyadic [of "1 / 2" 1 1] by simp

lemma toDouble_255_half: "toDouble (255 / 2) = 255 / 2"
  using toDouble_dyadic [of "255 / 2" 255 1] by simp

lemma toDouble_255: "toDouble 255 = 255"
  by (rule toDouble_channel) simp_all

section \<open>Properties of the colour model\<close>

lemma srgbToLinear_nonneg: "0 \<le> s \<Longrightarrow> 0 \<le> srgbToLinear s"
  by (simp add: srgbToLinear_def)

lemma getRelativeLuminance_spec: "getRelativeLuminance c = specLuminance c"
  by (simp add: getRelativeLuminance_def specLuminance_def srgbToLinear_def Let_def)

lemma luminance_nonneg:
  assumes "validColor c"
  shows "0 \<le> getRelativeLuminance c"
proof -
  have "0 \<le> srgbToLinear (col_r c / 255)" "0 \<le> srgbToLinear (col_g c / 255)"
    "0 \<le> srgbToLinear (col_b c / 255)"
    using assms by (simp_all add: validColor_def srgbToLinear_nonneg)
  then show ?thesis
    unfolding getRelativeLuminance_spec specLuminance_def by simp
qed

lemma luminance_black: "getRelativeLuminance black = 0"
  by (simp add: getRelativeLuminance_def black_def)

lemma luminance_white: "getRelativeLuminance white = 1"
  by (simp add: getRelativeLuminance_def white_def)

lemma ratio_black_white: "calculateContrastRatio black white = 21"
  by (simp add: calculateContrastRatio_def luminance_black luminance_white)

lemma ratio_ge_one:
  assumes "validColor c1" "validColor c2"
  shows "1 \<le> calculateContrastRatio c1 c2"
proof -
  let ?l1 = "getRelativeLuminance c1" and ?l2 = "getRelativeLuminance c2"
  have pos: "0 < min ?l1 ?l2 + 0.05"
    using luminance_nonneg [OF assms(1)] luminance_nonneg [OF assms(2)] by simp
  have "min ?l1 ?l2 + 0.05 \<le> max ?l1 ?l2 + 0.05" by simp
  with pos have "1 \<le> (max ?l1 ?l2 + 0.05) / (min ?l1 ?l2 + 0.05)"
    by (simp add: le_divide_eq)
  then show ?thesis by (simp add: calculateContrastRatio_def Let_def)
qed

lemma validColor_black: "validColor black"
  by (simp add: validColor_def black_def)


lemma ratio_self:
  assumes "validColor c"
  shows "calculateContrastRatio c c = 1"
proof -
  have "0 < getRelativeLuminance c + 0.05"
    using luminance_nonneg [OF assms] by simp
  then show ?thesis by (simp add: calculateContrastRatio_def Let_def)
qed

lemma ratio_commute: "calculateContrastRatio c1 c2 = calculateContrastRatio c2 c1"
  by (simp add: calculateContrastRatio_def Let_def max.commute min.commute)

lemma jsRound_int: "x \<in> \<int> \<Longrightarrow> jsRound x = x"
  by (auto simp: jsRound_def elim!: Ints_cases)

text \<open>
  C3: for colours within the data model (channels in 0..255),
  \<^verbatim>\<open>calculateContrastRatio(c1, c2)\<close> is
  \<open>(max L1 L2 + 0.05) / (min L1 L2 + 0.05)\<close> with \<open>L1\<close>, \<open>L2\<close> the relative luminances
  of the sRGB formula, it is at least 1, and the ratio of black and white is 21
  within \<open>10\<^sup>-\<^sup>6\<close>.
\<close>

theorem contrast_ratio_formula:
  "calculateContrastRatio c1 c2 =
     (max (specLuminance c1) (specLuminance c2) + 0.05)
       / (min (specLuminance c1) (specLuminance c2) + 0.05)
   \<and> (validColor c1 \<and> validColor c2 \<longrightarrow> calculateContrastRatio c1 c2 \<ge> 1)
   \<and> \<bar>calculateContrastRatio black white - 21\<bar> \<le> 1 / 10 ^ 6"
proof (intro conjI impI)
  show "calculateContrastRatio c1 c2 =
     (max (specLuminance c1) (specLuminance c2) + 0.05)
       / (min (specLuminance c1) (specLuminance c2) + 0.05)"
    by (simp add: calculateContrastRatio_def Let_def getRelativeLuminance_spec)
next
  assume "validColor c1 \<and> validColor c2"
  then show "calculateContrastRatio c1 c2 \<ge> 1"
    by (simp add: ratio_ge_one)
next
  show "\<bar>calculateContrastRatio black white - 21\<bar> \<le> 1 / 10 ^ 6"
    by (simp add: ratio_black_white)
qed

theorem contrast_ratio_formula_witness:
  "validColor black \<and> validColor white \<and> calculateContrastRatio black white \<ge> 1
   \<and> calculateContrastRatio black white = 21"
proof -
  have h: "validColor black \<and> validColor white"
    by (simp add: validColor_def black_def white_def)
  from contrast_ratio_formula [of black white] h
  have "calculateContrastRatio black white \<ge> 1" by blast
  with h ratio_black_white show ?thesis by simp
qed

text \<open>
  C9: \<^verbatim>\<open>calculateContrastRatio\<close> is symmetric in its two arguments, and the ratio
  of a colour of the data model with itself is exactly 1.
\<close>

theorem contrast_ratio_symmetric_reflexive:
  "calculateContrastRatio c1 c2 = calculateContrastRatio c2 c1
   \<and> (validColor c \<longrightarrow> calculateContrastRatio c c = 1)"
  using ratio_commute ratio_self by blast

theorem contrast_ratio_symmetric_reflexive_witness:
  "calculateContrastRatio black white = calculateContrastRatio white black
   \<and> validColor white \<and> calculateContrastRatio white white = 1"
proof -
  have h: "validColor white"
    by (simp add: validColor_def white_def)
  from contrast_ratio_symmetric_reflexive [of black white white] h
  show ?thesis by blast
qed

lemma blend_channel_opaque:
  assumes "x \<in> \<int>" "0 \<le> x" "x \<le> 255"
  shows "jsRound (toDouble (toDouble (x * 1) + toDouble (y * toDouble (1 - 1)))) = x"
  using assms by (simp add: toDouble_zero toDouble_channel jsRound_int)

text \<open>
  C8: a colour with alpha 1 and integer channels in 0..255 blended over any background
  is that colour again; in general the alpha of the blend is 1 and every channel is
  \<open>fg \<cdot> a + bg \<cdot> (1 - a)\<close> as double arithmetic computes it (the difference, the two
  products and the sum each rounded to a double), rounded by \<^verbatim>\<open>Math.round\<close>.
\<close>

theorem blend_opaque_identity:
  "(col_a c = 1 \<and> integerChannels c \<and> validColor c \<longrightarrow> blendColors c bg = c)
   \<and> col_a (blendColors fg bg) = 1
   \<and> col_r (blendColors fg bg) =
       jsRound (toDouble (toDouble (col_r fg * col_a fg)
                            + toDouble (col_r bg * toDouble (1 - col_a fg))))
   \<and> col_g (blendColors fg bg) =
       jsRound (toDouble (toDouble (col_g fg * col_a fg)
                            + toDouble (col_g bg * toDouble (1 - col_a fg))))
   \<and> col_b (blendColors fg bg) =
       jsRound (toDouble (toDouble (col_b fg * col_a fg)
                            + toDouble (col_b bg * toDouble (1 - col_a fg))))"
proof (intro conjI impI)
  assume h: "col_a c = 1 \<and> integerChannels c \<and> validColor c"
  then have r: "col_r c \<in> \<int>" "0 \<le> col_r c" "col_r c \<le> 255"
    and g: "col_g c \<in> \<int>" "0 \<le> col_g c" "col_g c \<le> 255"
    and b: "col_b c \<in> \<int>" "0 \<le> col_b c" "col_b c \<le> 255"
    by (simp_all add: integerChannels_def validColor_def)
  have "blendColors c bg =
      \<lparr> col_r = col_r c, col_g = col_g c, col_b = col_b c, col_a = 1 \<rparr>"
    unfolding blendColors_def Let_def
    using h blend_channel_opaque [OF r] blend_channel_opaque [OF g] blend_channel_opaque [OF b]
    by simp
  with h show "blendColors c bg = c" by simp
qed (simp_all add: blendColors_def Let_def)

theorem blend_opaque_identity_witness:
  "col_a white = 1 \<and> integerChannels white \<and> validColor white
   \<and> blendColors white black = white"
proof -
  have h: "col_a white = 1 \<and> integerChannels white \<and> validColor white"
    by (simp add: white_def integerChannels_def validColor_def)
  from blend_opaque_identity [of white black white] h
  show ?thesis by blast
qed

section \<open>Properties of the contrast requirements\<close>

lemma parseInt_400: "parseInt ''400'' = Some 400"
  by (simp add: parseInt_def isWhiteSpace_def isDigitIn_def digitValue_def digitsValue_def Let_def)

text \<open>
  C2: the font size in px is multiplied by 0.75 to give points; an element with one of
  the roles \<^verbatim>\<open>button\<close>, \<^verbatim>\<open>tab\<close>, \<^verbatim>\<open>menuitem\<close> is classified non-text whatever its
  size; an element that is not non-text is large text exactly when its size is at
  least 18pt, or at least 14pt with a weight that is \<^verbatim>\<open>bold\<close> or at least 700, and
  normal text otherwise; the thresholds are 4.5 and 7.0 for normal text, 3.0 and 4.5
  for large text and for non-text.
\<close>

theorem classify_requirements:
  "getFontSizeInPt px = px * 0.75
   \<and> (let reqs = getContrastRequirements (getFontSizeInPt px) fontWeight e;
           largeText = (px * 0.75 \<ge> 18 \<or>
             (px * 0.75 \<ge> 14 \<and>
              (fontWeight = ''bold'' \<or> (\<exists>w. parseInt fontWeight = Some w \<and> w \<ge> 700))))
       in ((\<exists>role. roleAttr e = Some role \<and> role \<in> {''button'', ''tab'', ''menuitem''})
              \<longrightarrow> req_type reqs = NonText)
          \<and> (\<not> isNonText e \<longrightarrow> (req_type reqs = LargeText \<longleftrightarrow> largeText))
          \<and> (\<not> isNonText e \<and> \<not> largeText \<longrightarrow> req_type reqs = NormalText)
          \<and> (req_type reqs = NormalText \<longrightarrow> req_aa reqs = 4.5 \<and> req_aaa reqs = 7.0)
          \<and> (req_type reqs = LargeText \<longrightarrow> req_aa reqs = 3.0 \<and> req_aaa reqs = 4.5)
          \<and> (req_type reqs = NonText \<longrightarrow> req_aa reqs = 3.0 \<and> req_aaa reqs = 4.5))"
proof -
  have large: "isLargeText (px * 0.75) fontWeight \<longleftrightarrow>
      (px * 0.75 \<ge> 18 \<or>
        (px * 0.75 \<ge> 14 \<and>
         (fontWeight = ''bold'' \<or> (\<exists>w. parseInt fontWeight = Some w \<and> w \<ge> 700))))"
    by (auto simp: isLargeText_def config_wcag_def split: option.splits)
  have role: "(\<exists>role. roleAttr e = Some role \<and> role \<in> {''button'', ''tab'', ''menuitem''})
      \<longrightarrow> isNonText e"
    by (auto simp: isNonText_def)
  show ?thesis
    unfolding Let_def getFontSizeInPt_def getContrastRequirements_def
    using role large
    by (cases "isNonText e"; cases "isLargeText (px * 0.75) fontWeight")
      (auto simp: config_wcag_def)
qed

theorem classify_requirements_witness:
  "req_type (getContrastRequirements (getFontSizeInPt 16) ''400'' paragraph16) = NormalText
   \<and> req_aa (getContrastRequirements (getFontSizeInPt 16) ''400'' paragraph16) = 4.5
   \<and> req_type (getContrastRequirements (getFontSizeInPt 24) ''400'' heading24) = LargeText
   \<and> req_aa (getContrastRequirements (getFontSizeInPt 24) ''400'' heading24) = 3.0
   \<and> req_type (getContrastRequirements (getFontSizeInPt 40) ''400'' tabLink) = NonText
   \<and> req_aa (getContrastRequirements (getFontSizeInPt 40) ''400'' tabLink) = 3.0"
proof -
  have a: "\<not> isNonText paragraph16" "\<not> isNonText heading24"
    by (simp_all add: isNonText_def paragraph16_def heading24_def)
  have b: "roleAttr tabLink = Some ''tab''"
    by (simp add: tabLink_def)
  have p: "req_type (getContrastRequirements (getFontSizeInPt 16) ''400'' paragraph16) = NormalText
      \<and> req_aa (getContrastRequirements (getFontSizeInPt 16) ''400'' paragraph16) = 4.5"
    using classify_requirements [of 16 "''400''" paragraph16] a(1)
    by (auto simp: Let_def parseInt_400)
  have h: "req_type (getContrastRequirements (getFontSizeInPt 24) ''400'' heading24) = LargeText
      \<and> req_aa (getContrastRequirements (getFontSizeInPt 24) ''400'' heading24) = 3.0"
    using classify_requirements [of 24 "''400''" heading24] a(2)
    by (auto simp: Let_def parseInt_400)
  have t: "req_type (getContrastRequirements (getFontSizeInPt 40) ''400'' tabLink) = NonText
      \<and> req_aa (getContrastRequirements (getFontSizeInPt 40) ''400'' tabLink) = 3.0"
    using classify_requirements [of 40 "''400''" tabLink] b
    by (auto simp: Let_def parseInt_400)
  from p h t show ?thesis by blast
qed

text \<open>An element of 18px and weight 400 is 13.5pt, below both sizes: it is normal text
  with the thresholds 4.5 and 7.0.\<close>

lemma px18_is_normal_text:
  "getContrastRequirements (getFontSizeInPt 18) ''400'' paragraph16
     = \<lparr> req_type = NormalText, req_aa = 4.5, req_aaa = 7.0 \<rparr>"
  by (simp add: getContrastRequirements_def getFontSizeInPt_def isLargeText_def isNonText_def
      paragraph16_def config_wcag_def parseInt_400)


section \<open>Properties of the background resolver\<close>

lemma effective_alpha_one: "col_a (getEffectiveBackgroundColor e) = 1"
  by (induction e rule: getEffectiveBackgroundColor.induct)
    (auto simp: white_def blendColors_def Let_def split: option.splits)

lemma effective_white:
  "\<forall>n \<in> set (walkedChain e). \<not> paintsBackground n \<Longrightarrow> getEffectiveBackgroundColor e = white"
  by (induction e rule: getEffectiveBackgroundColor.induct)
    (auto simp: paintsBackground_def split: option.splits)

text \<open>
  C4: when neither the element nor any ancestor below \<^verbatim>\<open>document.body\<close> has a parsed
  background with alpha above 0, \<^verbatim>\<open>getEffectiveBackgroundColor\<close> returns opaque white
  (a colour, not an error); and whatever the element, the colour it returns has
  alpha 1.
\<close>

theorem effective_background_default_white:
  "((\<forall>n \<in> set (walkedChain e). \<not> paintsBackground n) \<longrightarrow> getEffectiveBackgroundColor e = white)
   \<and> col_a (getEffectiveBackgroundColor e) = 1"
  using effective_white effective_alpha_one by blast

theorem effective_background_default_white_witness:
  "walkedChain (Some paragraph16) = [paragraph16]
   \<and> \<not> paintsBackground paragraph16
   \<and> getEffectiveBackgroundColor (Some paragraph16) = white
   \<and> col_a (getEffectiveBackgroundColor (Some paragraph16)) = 1"
proof -
  have c: "walkedChain (Some paragraph16) = [paragraph16]"
    by (simp add: paragraph16_def plainBody_def)
  have p: "\<not> paintsBackground paragraph16"
    by (simp add: paragraph16_def paintsBackground_def transparent_def)
  from c p have h: "\<forall>n \<in> set (walkedChain (Some paragraph16)). \<not> paintsBackground n"
    by simp
  from effective_background_default_white [of "Some paragraph16"] h c p
  show ?thesis by blast
qed

text \<open>
  C1 as stated fails: the span \<open>pinkOnWhite\<close> has a half-transparent red background
  and a parent with an opaque white one. Its nearest opaque ancestor is the parent, but
  the resolver returns the blend of the two colours, not white.
\<close>

theorem nearest_opaque_counterexample:
  "nearestOpaque (Some pinkOnWhite) = Some white
   \<and> getEffectiveBackgroundColor (Some pinkOnWhite)
       = \<lparr> col_r = 255, col_g = 128, col_b = 128, col_a = 1 \<rparr>
   \<and> getEffectiveBackgroundColor (Some pinkOnWhite) \<noteq> white"
  by (simp add: pinkOnWhite_def whiteCard_def white_def blendColors_def jsRound_def Let_def
      toDouble_zero toDouble_half toDouble_255_half toDouble_255)

text \<open>The walk ends before \<^verbatim>\<open>document.body\<close>: the background of the body is never
  read, and a paragraph in a body with an opaque black background resolves to white.\<close>

lemma effective_background_skips_body:
  "nearestOpaque (Some inDarkBody) = Some black
   \<and> getEffectiveBackgroundColor (Some inDarkBody) = white"
  by (simp add: inDarkBody_def darkBody_def black_def transparent_def)

lemma effective_nearest_painted:
  "walkedChain e = pre @ n # post \<Longrightarrow> \<forall>m \<in> set pre. \<not> paintsBackground m \<Longrightarrow>
   styleBackgroundColor n = Some c \<Longrightarrow> col_a c = 1 \<Longrightarrow>
   getEffectiveBackgroundColor e = c"
proof (induction pre arbitrary: e)
  case Nil
  then obtain cur where e: "e = Some cur" by (cases e) auto
  with Nil have "\<not> isBody cur" "cur = n" by (auto split: if_splits)
  with Nil e show ?case by simp
next
  case (Cons p pre)
  then obtain cur where e: "e = Some cur" by (cases e) auto
  with Cons.prems have nb: "\<not> isBody cur" and cur: "cur = p"
    and rest: "walkedChain (parentElement cur) = pre @ n # post"
    by (auto split: if_splits)
  from Cons.prems cur have np: "\<not> paintsBackground cur" by simp
  have "getEffectiveBackgroundColor (parentElement cur) = c"
    using Cons.IH [OF rest] Cons.prems by simp
  with e nb np show ?case
    by (auto simp: paintsBackground_def split: option.splits)
qed

text \<open>
  C1, amended: on the chain of the element and its ancestors below \<^verbatim>\<open>document.body\<close>,
  when an element \<open>n\<close> has a parsed background of alpha 1 and no element before it
  has a parsed background of alpha above 0, \<^verbatim>\<open>getEffectiveBackgroundColor\<close> returns
  exactly the colour of \<open>n\<close>, whatever lies above \<open>n\<close>.
\<close>

theorem effective_background_nearest_opaque:
  "walkedChain e = pre @ n # post \<and> (\<forall>m \<in> set pre. \<not> paintsBackground m)
     \<and> styleBackgroundColor n = Some c \<and> col_a c = 1
   \<longrightarrow> getEffectiveBackgroundColor e = c"
  using effective_nearest_painted by blast

theorem effective_background_nearest_opaque_witness:
  "walkedChain (Some onWhiteCard) = [onWhiteCard] @ whiteCard # []
   \<and> \<not> paintsBackground onWhiteCard
   \<and> styleBackgroundColor whiteCard = Some white \<and> col_a white = 1
   \<and> getEffectiveBackgroundColor (Some onWhiteCard) = white"
proof -
  have h1: "walkedChain (Some onWhiteCard) = [onWhiteCard] @ whiteCard # []"
    by (simp add: onWhiteCard_def whiteCard_def plainBody_def)
  have h2: "\<not> paintsBackground onWhiteCard"
    by (simp add: onWhiteCard_def paintsBackground_def transparent_def)
  then have h2': "\<forall>m \<in> set [onWhiteCard]. \<not> paintsBackground m"
    by simp
  have h3: "styleBackgroundColor whiteCard = Some white \<and> col_a white = 1"
    by (simp add: whiteCard_def white_def)
  from effective_background_nearest_opaque
    [of "Some onWhiteCard" "[onWhiteCard]" whiteCard "[]" white] h1 h2 h2' h3
  show ?thesis by blast
qed

section \<open>Properties of the contrast analysis\<close>





text \<open>An exception in the callback ends \<^verbatim>\<open>analyzeColorContrast\<close>: the elements
  after it are not analysed.\<close>

lemma analyzeColorContrast_abandoned:
  "analyzeElement parses st e = Inl thrown \<Longrightarrow>
   analyzeColorContrast parses st (e # rest) = Inl thrown"
  by (simp add: analyzeColorContrast_def)



text \<open>A paragraph whose text is a no-break space has no text after \<^verbatim>\<open>trim\<close> and is
  skipped.\<close>

lemma no_break_space_skipped:
  "skipped noBreakSpaceOnly \<and> analyzeElement parses st noBreakSpaceOnly = Inr st"
  by (simp add: analyzeElement_def skipped_def trim_def isJsWhiteSpace_def noBreakSpaceOnly_def)






section \<open>Properties of the colour adjustment solver\<close>

declare adjustLoop.simps [simp del]

lemma adjustLoop_char:
  "adjustLoop bg t d c (calculateContrastRatio c bg) i = (c', n) \<Longrightarrow> i \<le> maxIterations \<Longrightarrow>
   i \<le> n \<and> n \<le> maxIterations \<and> c' = (shiftColor d ^^ (n - i)) c
   \<and> (calculateContrastRatio c' bg \<ge> t \<or> n = maxIterations)
   \<and> (\<forall>k < n - i. calculateContrastRatio ((shiftColor d ^^ k) c) bg < t)"
proof (induction bg t d c "calculateContrastRatio c bg" i arbitrary: c' n rule: adjustLoop.induct)
  case (1 bg t d c i)
  show ?case
  proof (cases "calculateContrastRatio c bg < t \<and> i < maxIterations")
    case False
    with "1.prems" have "c' = c" "n = i" by (auto simp: adjustLoop.simps [of bg t d c])
    with False "1.prems" show ?thesis by auto
  next
    case True
    let ?c1 = "shiftColor d c"
    from True "1.prems"
    have run: "adjustLoop bg t d ?c1 (calculateContrastRatio ?c1 bg) (i + 1) = (c', n)"
      by (simp add: Let_def adjustLoop.simps [of bg t d c])
    from True have le: "i + 1 \<le> maxIterations" by simp
    from "1.hyps" [OF True refl run le]
    have ih: "i + 1 \<le> n" "n \<le> maxIterations" "c' = (shiftColor d ^^ (n - (i + 1))) ?c1"
      "calculateContrastRatio c' bg \<ge> t \<or> n = maxIterations"
      "\<forall>k < n - (i + 1). calculateContrastRatio ((shiftColor d ^^ k) ?c1) bg < t"
      by auto
    from ih(1) have eq: "n - i = Suc (n - (i + 1))" by simp
    have c': "c' = (shiftColor d ^^ (n - i)) c"
      unfolding eq using ih(3) by (simp add: funpow_swap1)
    have below: "\<forall>k < n - i. calculateContrastRatio ((shiftColor d ^^ k) c) bg < t"
    proof (intro allI impI)
      fix k assume k: "k < n - i"
      show "calculateContrastRatio ((shiftColor d ^^ k) c) bg < t"
      proof (cases k)
        case 0
        with True show ?thesis by simp
      next
        case (Suc j)
        with k have "j < n - (i + 1)" by simp
        with ih(5) have "calculateContrastRatio ((shiftColor d ^^ j) ?c1) bg < t" by simp
        with Suc show ?thesis by (simp add: funpow_swap1)
      qed
    qed
    from ih c' below show ?thesis by simp
  qed
qed

lemma shiftColor_valid:
  assumes "validColor c"
  shows "shiftColor d c =
           c \<lparr> col_r := clampChannel (col_r c + (if d = ''darken'' then - 10 else 10)),
               col_g := clampChannel (col_g c + (if d = ''darken'' then - 10 else 10)),
               col_b := clampChannel (col_b c + (if d = ''darken'' then - 10 else 10)) \<rparr>"
    and "validColor (shiftColor d c)"
  using assms by (auto simp: shiftColor_def clampChannel_def validColor_def Let_def)

lemma shiftColor_black: "shiftColor ''darken'' black = black"
  by (simp add: shiftColor_def black_def)

lemma funpow_fixed: "f x = x \<Longrightarrow> (f ^^ n) x = x"
  by (induction n) simp_all

text \<open>
  C5: the loop of \<^verbatim>\<open>adjustColorForContrast\<close> runs at most 25 times and returns the
  colour shifted that many times; it has stopped because the ratio reached the target
  or because it ran 25 times, and it did not stop before: the ratio was below the
  target at every earlier iteration. On a colour of the data model one shift adds 10
  to every channel, or subtracts 10 for \<^verbatim>\<open>darken\<close>, and clamps to 0..255. The
  returned colour may miss the target: darkening black against black returns a colour
  whose ratio is below 4.5.
\<close>

theorem adjust_bounded_search:
  "adjustIterations c bg t d \<le> 25
   \<and> adjustColorForContrast c bg t d = (shiftColor d ^^ adjustIterations c bg t d) c
   \<and> (calculateContrastRatio (adjustColorForContrast c bg t d) bg \<ge> t
        \<or> adjustIterations c bg t d = 25)
   \<and> (\<forall>k < adjustIterations c bg t d. calculateContrastRatio ((shiftColor d ^^ k) c) bg < t)
   \<and> (validColor c \<longrightarrow>
        shiftColor d c =
           c \<lparr> col_r := clampChannel (col_r c + (if d = ''darken'' then - 10 else 10)),
               col_g := clampChannel (col_g c + (if d = ''darken'' then - 10 else 10)),
               col_b := clampChannel (col_b c + (if d = ''darken'' then - 10 else 10)) \<rparr>
        \<and> validColor (shiftColor d c))
   \<and> calculateContrastRatio (adjustColorForContrast black black 4.5 ''darken'') black < 4.5"
proof -
  obtain c' n where run: "adjustLoop bg t d c (calculateContrastRatio c bg) 0 = (c', n)"
    by (cases "adjustLoop bg t d c (calculateContrastRatio c bg) 0")
  have res: "adjustColorForContrast c bg t d = c'" and its: "adjustIterations c bg t d = n"
    using run by (simp_all add: adjustColorForContrast_def adjustIterations_def)
  from adjustLoop_char [OF run]
  have "n \<le> maxIterations \<and> c' = (shiftColor d ^^ n) c
    \<and> (calculateContrastRatio c' bg \<ge> t \<or> n = maxIterations)
    \<and> (\<forall>k < n. calculateContrastRatio ((shiftColor d ^^ k) c) bg < t)"
    by auto
  then have main: "adjustIterations c bg t d \<le> 25
   \<and> adjustColorForContrast c bg t d = (shiftColor d ^^ adjustIterations c bg t d) c
   \<and> (calculateContrastRatio (adjustColorForContrast c bg t d) bg \<ge> t
        \<or> adjustIterations c bg t d = 25)
   \<and> (\<forall>k < adjustIterations c bg t d. calculateContrastRatio ((shiftColor d ^^ k) c) bg < t)"
    unfolding res its maxIterations_def by blast
  obtain c2 n2 where run2:
    "adjustLoop black 4.5 ''darken'' black (calculateContrastRatio black black) 0 = (c2, n2)"
    by (cases "adjustLoop black 4.5 ''darken'' black (calculateContrastRatio black black) 0")
  from adjustLoop_char [OF run2] have "c2 = black"
    by (simp add: funpow_fixed shiftColor_black)
  with run2 have "adjustColorForContrast black black 4.5 ''darken'' = black"
    by (simp add: adjustColorForContrast_def)
  then have ex: "calculateContrastRatio (adjustColorForContrast black black 4.5 ''darken'') black < 4.5"
    by (simp add: ratio_self validColor_black)
  from main shiftColor_valid ex show ?thesis by blast
qed

theorem adjust_bounded_search_witness:
  "validColor black
   \<and> adjustIterations black black 4.5 ''darken'' = 25
   \<and> adjustColorForContrast black black 4.5 ''darken'' = black
   \<and> validColor (shiftColor ''darken'' black)
   \<and> calculateContrastRatio ((shiftColor ''darken'' ^^ 24) black) black < 4.5"
proof -
  note t = adjust_bounded_search [of black black "4.5" "''darken''"]
  have v: "validColor black" by (rule validColor_black)
  from t have r: "adjustColorForContrast black black 4.5 ''darken'' = black"
    by (simp add: funpow_fixed shiftColor_black)
  from t have "calculateContrastRatio (adjustColorForContrast black black 4.5 ''darken'') black < 4.5"
    by blast
  with t have n: "adjustIterations black black 4.5 ''darken'' = 25" by linarith
  from t v have s: "validColor (shiftColor ''darken'' black)" by blast
  from t have b: "\<forall>k < adjustIterations black black 4.5 ''darken''.
         calculateContrastRatio ((shiftColor ''darken'' ^^ k) black) black < 4.5"
    by blast
  from b n have "calculateContrastRatio ((shiftColor ''darken'' ^^ 24) black) black < 4.5"
    by simp
  with v n r s show ?thesis by blast
qed

section \<open>Properties of the typography analyser\<close>

lemma split_last_bar:
  assumes "x \<notin> set a" "x \<notin> set b" "p @ x # a = q @ x # b"
  shows "p = q \<and> a = b"
  using assms
  by (auto simp: append_eq_append_conv2 append_eq_Cons_conv Cons_eq_append_conv)

lemma styleKey_inject:
  assumes "CHR ''|'' \<notin> set s1" "CHR ''|'' \<notin> set w1" "CHR ''|'' \<notin> set l1"
    and "CHR ''|'' \<notin> set s2" "CHR ''|'' \<notin> set w2" "CHR ''|'' \<notin> set l2"
    and "styleKey f1 s1 w1 l1 = styleKey f2 s2 w2 l2"
  shows "f1 = f2 \<and> s1 = s2 \<and> w1 = w2 \<and> l1 = l2"
proof -
  from assms(7) have "(f1 @ ''|'' @ s1 @ ''|'' @ w1) @ CHR ''|'' # l1
      = (f2 @ ''|'' @ s2 @ ''|'' @ w2) @ CHR ''|'' # l2"
    by (simp add: styleKey_def)
  from split_last_bar [OF assms(3,6) this]
  have l: "l1 = l2" and r1: "(f1 @ ''|'' @ s1) @ CHR ''|'' # w1 = (f2 @ ''|'' @ s2) @ CHR ''|'' # w2"
    by simp_all
  from split_last_bar [OF assms(2,5) r1]
  have w: "w1 = w2" and r2: "f1 @ CHR ''|'' # s1 = f2 @ CHR ''|'' # s2"
    by simp_all
  from split_last_bar [OF assms(1,4) r2] l w show ?thesis by simp
qed

text \<open>Without that condition on the three values the key does not determine the
  tuple.\<close>

lemma styleKey_not_injective:
  "styleKey ''a'' ''b|c'' ''d'' ''e'' = styleKey ''a|b'' ''c'' ''d'' ''e''"
  by (simp add: styleKey_def)

lemma key_eq_fingerprint:
  assumes "barFree e1" "barFree e2"
  shows "elementKey e1 = elementKey e2 \<longleftrightarrow> fingerprint e1 = fingerprint e2"
proof
  assume eq: "elementKey e1 = elementKey e2"
  from assms have b: "CHR ''|'' \<notin> set (se_fontSize e1)" "CHR ''|'' \<notin> set (se_fontWeight e1)"
    "CHR ''|'' \<notin> set (se_lineHeight e1)" "CHR ''|'' \<notin> set (se_fontSize e2)"
    "CHR ''|'' \<notin> set (se_fontWeight e2)" "CHR ''|'' \<notin> set (se_lineHeight e2)"
    unfolding barFree_def by blast+
  from eq have "styleKey (se_fontFamily e1) (se_fontSize e1) (se_fontWeight e1) (se_lineHeight e1)
      = styleKey (se_fontFamily e2) (se_fontSize e2) (se_fontWeight e2) (se_lineHeight e2)"
    unfolding elementKey_def .
  from styleKey_inject [OF b this] show "fingerprint e1 = fingerprint e2"
    unfolding fingerprint_def by simp
next
  assume "fingerprint e1 = fingerprint e2"
  then show "elementKey e1 = elementKey e2"
    by (simp add: elementKey_def fingerprint_def)
qed

lemma collectElement_hidden: "\<not> visible e \<Longrightarrow> collectElement m e = m"
  by (simp add: collectElement_def visible_def)

lemma mapModify_absent: "key \<notin> fst ` set m \<Longrightarrow> mapModify key f m = m"
  by (induction m) auto

lemma mapModify_fst: "map fst (mapModify key f m) = map fst m"
  by (induction m) auto

lemma mapModify_set_key:
  "(key, b) \<in> set (mapModify key f m) \<longleftrightarrow> (\<exists>b0. (key, b0) \<in> set m \<and> b = f b0)"
  by (induction m) auto

lemma mapModify_set_other:
  "k \<noteq> key \<Longrightarrow> (k, b) \<in> set (mapModify key f m) \<longleftrightarrow> (k, b) \<in> set m"
  by (induction m) auto

lemma mapModify_set:
  "(k, b) \<in> set (mapModify key f m)
     \<longleftrightarrow> (\<exists>b0. (k, b0) \<in> set m \<and> b = (if k = key then f b0 else b0))"
  by (cases "k = key") (simp_all add: mapModify_set_key mapModify_set_other)

lemma mapModify_last:
  "key \<notin> fst ` set m \<Longrightarrow> mapModify key f (m @ [(key, v)]) = m @ [(key, f v)]"
  by (induction m) auto

lemma collectElement_new:
  assumes "visible e" "elementKey e \<notin> fst ` set m"
  shows "collectElement m e =
     m @ [(elementKey e,
           \<lparr> bk_metrics = \<lparr> fm_fontFamily = se_fontFamily e, fm_fontSize = se_fontSize e,
                            fm_fontWeight = se_fontWeight e, fm_lineHeight = se_lineHeight e,
                            fm_element = e \<rparr>,
             bk_elements = [e], bk_count = 1 \<rparr>)]"
proof -
  from assms(1) have v: "\<not> (se_offsetParentNull e \<and> se_tagName e \<noteq> ''HTML'')"
    by (simp add: visible_def)
  from assms(2) have h: "\<not> mapHas m (elementKey e)"
    by (simp add: mapHas_def)
  show ?thesis
    unfolding collectElement_def Let_def
    using v h mapModify_last [OF assms(2)]
    by (simp add: mapSet_def elementKey_def)
qed

lemma collectElement_old:
  assumes "visible e" "elementKey e \<in> fst ` set m"
  shows "collectElement m e =
     mapModify (elementKey e)
       (\<lambda>entry. entry \<lparr> bk_elements := bk_elements entry @ [e],
                          bk_count := bk_count entry + 1 \<rparr>) m"
proof -
  from assms(1) have v: "\<not> (se_offsetParentNull e \<and> se_tagName e \<noteq> ''HTML'')"
    by (simp add: visible_def)
  from assms(2) have h: "mapHas m (elementKey e)"
    by (simp add: mapHas_def)
  show ?thesis
    unfolding collectElement_def Let_def
    using v h by (auto simp: elementKey_def)
qed

lemma bucketsOf_step:
  assumes "bucketsOf m xs" "visible e"
  shows "bucketsOf (collectElement m e) (xs @ [e])"
proof (cases "elementKey e \<in> fst ` set m")
  case False
  have "\<forall>x \<in> set xs. elementKey x \<noteq> elementKey e"
    using assms(1) False unfolding bucketsOf_def by metis
  then have none: "filter (\<lambda>x. elementKey x = elementKey e) xs = []"
    by (simp add: filter_empty_conv)
  show ?thesis
    unfolding collectElement_new [OF assms(2) False]
    using assms(1) False none
    by (auto simp: bucketsOf_def)
next
  case True
  let ?f = "\<lambda>entry. entry \<lparr> bk_elements := bk_elements entry @ [e],
                                  bk_count := bk_count entry + 1 \<rparr>"
  let ?m' = "mapModify (elementKey e) ?f m"
  have d: "distinct (map fst ?m')"
    using assms(1) by (simp add: mapModify_fst bucketsOf_def)
  have b: "\<forall>(k, b) \<in> set ?m'. bk_elements b = filter (\<lambda>x. elementKey x = k) (xs @ [e])
           \<and> bk_elements b \<noteq> [] \<and> bk_count b = length (bk_elements b)"
  proof (clarify)
    fix k b assume "(k, b) \<in> set ?m'"
    then obtain b0 where b0: "(k, b0) \<in> set m"
      and bb: "b = (if k = elementKey e then ?f b0 else b0)"
      unfolding mapModify_set by blast
    from assms(1) b0 have "bk_elements b0 = filter (\<lambda>x. elementKey x = k) xs"
      "bk_elements b0 \<noteq> []" "bk_count b0 = length (bk_elements b0)"
      unfolding bucketsOf_def by blast+
    with bb show "bk_elements b = filter (\<lambda>x. elementKey x = k) (xs @ [e])
           \<and> bk_elements b \<noteq> [] \<and> bk_count b = length (bk_elements b)"
      by auto
  qed
  have k: "\<forall>x \<in> set (xs @ [e]). elementKey x \<in> fst ` set ?m'"
    using assms(1) True
    by (simp add: bucketsOf_def set_map [symmetric] mapModify_fst del: set_map)
  show ?thesis
    unfolding collectElement_old [OF assms(2) True] bucketsOf_def
    using d b k by blast
qed

lemma bucketsOf_foldl:
  "bucketsOf m xs \<Longrightarrow> bucketsOf (foldl collectElement m ys) (xs @ filter visible ys)"
proof (induction ys arbitrary: m xs)
  case Nil
  then show ?case by simp
next
  case (Cons y ys)
  show ?case
  proof (cases "visible y")
    case True
    from Cons.IH [OF bucketsOf_step [OF Cons.prems True]] True show ?thesis by simp
  next
    case False
    with Cons.IH [OF Cons.prems] show ?thesis by (simp add: collectElement_hidden)
  qed
qed

lemma bucketsOf_collect: "bucketsOf (collectTypographyData [] document) (collected document)"
  using bucketsOf_foldl [of "[]" "[]" "filter selected document"]
  by (simp add: collectTypographyData_def collected_def bucketsOf_def)

lemma sameBucket_iff_key:
  assumes "bucketsOf m xs" "e1 \<in> set xs" "e2 \<in> set xs"
  shows "sameBucket m e1 e2 \<longleftrightarrow> elementKey e1 = elementKey e2"
proof
  assume "sameBucket m e1 e2"
  then obtain k b where "(k, b) \<in> set m" "e1 \<in> set (bk_elements b)" "e2 \<in> set (bk_elements b)"
    unfolding sameBucket_def by blast
  moreover from this assms(1) have "bk_elements b = filter (\<lambda>x. elementKey x = k) xs"
    unfolding bucketsOf_def by blast
  ultimately show "elementKey e1 = elementKey e2" by simp
next
  assume eq: "elementKey e1 = elementKey e2"
  from assms(1,2) obtain b where b: "(elementKey e1, b) \<in> set m"
    unfolding bucketsOf_def by fastforce
  with assms(1) have "bk_elements b = filter (\<lambda>x. elementKey x = elementKey e1) xs"
    unfolding bucketsOf_def by blast
  with assms(2,3) eq have "e1 \<in> set (bk_elements b)" "e2 \<in> set (bk_elements b)" by simp_all
  with b show "sameBucket m e1 e2" unfolding sameBucket_def by blast
qed


section \<open>Properties of the issue analysis of code.js\<close>

lemma selectorsOf_isl:
  "isl (selectorsOf parses xs)
     \<longleftrightarrow> (\<exists>(tag, ident, cls) \<in> set xs. isl (generateSelector parses tag ident cls))"
  by (induction parses xs rule: selectorsOf.induct) (auto split: sum.splits)

lemma typographyCreateFixableIssue_cases:
  "typographyCreateFixableIssue parses st issue =
     (if \<exists>e \<in> set (ti_elements issue). selectorThrows parses e then Inl (SyntaxError, st)
      else Inr (st \<lparr> ts_fixableIssues := ts_fixableIssues st @ [issue] \<rparr>))"
proof -
  let ?xs = "map (\<lambda>e. (se_tagName e, se_id e, se_className e)) (ti_elements issue)"
  have isl: "isl (selectorsOf parses ?xs) \<longleftrightarrow> (\<exists>e \<in> set (ti_elements issue). selectorThrows parses e)"
    unfolding selectorsOf_isl by (auto simp: selectorThrows_def)
  show ?thesis
  proof (cases "selectorsOf parses ?xs")
    case (Inl err)
    with isl show ?thesis
      by (cases err) (simp add: typographyCreateFixableIssue_def)
  next
    case (Inr selectors)
    with isl show ?thesis
      by (simp add: typographyCreateFixableIssue_def)
  qed
qed

lemma report_cases:
  "report parses st issue =
     (if \<exists>e \<in> set (ti_elements issue). selectorThrows parses e
      then Inl (SyntaxError, addIssue st (ti_severity issue) (ti_elements issue))
      else Inr (addIssue st (ti_severity issue) (ti_elements issue)
                  \<lparr> ts_fixableIssues := ts_fixableIssues st @ [issue] \<rparr>))"
  by (simp add: report_def typographyCreateFixableIssue_cases addIssue_def)

lemma reportAll_parses:
  "\<forall>i \<in> set found. \<forall>e \<in> set (ti_elements i). \<not> selectorThrows parses e \<Longrightarrow>
   reportAll parses st found =
     Inr (st \<lparr> ts_issues := ts_issues st @
                  map (\<lambda>i. \<lparr> li_severity = ti_severity i, li_elements = ti_elements i \<rparr>) found,
              ts_fixableIssues := ts_fixableIssues st @ found \<rparr>)"
  unfolding reportAll_def
  by (induction found arbitrary: st) (simp_all add: report_cases addIssue_def)

lemma reportAll_subset:
  "set (ts_fixableIssues (finalState (reportAll parses st found)))
     \<subseteq> set (ts_fixableIssues st) \<union> set found"
  unfolding reportAll_def
proof (induction found arbitrary: st)
  case Nil
  then show ?case by (simp add: finalState_def)
next
  case (Cons i found)
  show ?case
  proof (cases "\<exists>e \<in> set (ti_elements i). selectorThrows parses e")
    case True
    then show ?thesis by (auto simp: report_cases finalState_def addIssue_def)
  next
    case False
    let ?st = "addIssue st (ti_severity i) (ti_elements i)
                  \<lparr> ts_fixableIssues := ts_fixableIssues st @ [i] \<rparr>"
    from False have "forEachE (report parses) st (i # found) = forEachE (report parses) ?st found"
      by (simp add: report_cases)
    with Cons.IH [of ?st] show ?thesis by auto
  qed
qed

lemma triggered_elements:
  "i \<in> set (triggered cfg b) \<Longrightarrow> ti_elements i = bk_elements b"
  by (auto simp: triggered_def Let_def split: if_splits)

lemma triggered_redundant:
  "(\<exists>i \<in> set (triggered cfg b). ti_issueType i = ''redundant-style'')
     \<longleftrightarrow> bk_count b \<le> redundancyThreshold cfg"
  by (auto simp: triggered_def Let_def split: if_splits)

lemma triggered_redundant_mem:
  "bk_count b \<le> redundancyThreshold cfg \<Longrightarrow>
     \<lparr> ti_issueType = ''redundant-style'', ti_severity = Info, ti_elements = bk_elements b \<rparr>
       \<in> set (triggered cfg b)"
  by (simp add: triggered_def Let_def)

lemma analyzeIssues_subset:
  "set (ts_fixableIssues (finalState (analyzeIssues parses cfg m st)))
     \<subseteq> set (ts_fixableIssues st) \<union> (\<Union>(k, b) \<in> set m. set (triggered cfg b))"
  unfolding analyzeIssues_def
proof (induction m arbitrary: st)
  case Nil
  then show ?case by (simp add: finalState_def)
next
  case (Cons kb m)
  obtain k b where kb: "kb = (k, b)" by (cases kb)
  have sub: "set (ts_fixableIssues (finalState (analyzeBucket parses cfg st b)))
      \<subseteq> set (ts_fixableIssues st) \<union> set (triggered cfg b)"
    unfolding analyzeBucket_def by (rule reportAll_subset)
  show ?case
  proof (cases "analyzeBucket parses cfg st b")
    case (Inl thrown)
    with sub kb show ?thesis by (auto simp: finalState_def)
  next
    case (Inr st')
    with sub have "set (ts_fixableIssues st') \<subseteq> set (ts_fixableIssues st) \<union> set (triggered cfg b)"
      by (simp add: finalState_def)
    with Cons.IH [of st'] Inr kb show ?thesis by auto
  qed
qed

lemma analyzeIssues_parses:
  "\<forall>(k, b) \<in> set m. \<forall>e \<in> set (bk_elements b). \<not> selectorThrows parses e \<Longrightarrow>
   \<exists>st'. analyzeIssues parses cfg m st = Inr st'
     \<and> ts_fixableIssues st' = ts_fixableIssues st @ concat (map (\<lambda>(k, b). triggered cfg b) m)"
  unfolding analyzeIssues_def
proof (induction m arbitrary: st)
  case Nil
  then show ?case by simp
next
  case (Cons kb m)
  obtain k b where kb: "kb = (k, b)" by (cases kb)
  from Cons.prems kb have "\<forall>i \<in> set (triggered cfg b). \<forall>e \<in> set (ti_elements i). \<not> selectorThrows parses e"
    by (simp add: triggered_elements)
  from reportAll_parses [OF this, of st]
  obtain st1 where st1: "analyzeBucket parses cfg st b = Inr st1"
    and f1: "ts_fixableIssues st1 = ts_fixableIssues st @ triggered cfg b"
    by (simp add: analyzeBucket_def)
  from Cons.prems have "\<forall>(k, b) \<in> set m. \<forall>e \<in> set (bk_elements b). \<not> selectorThrows parses e"
    by simp
  from Cons.IH [OF this, of st1] st1 f1 kb show ?case by simp
qed

lemma bucket_by_elements:
  assumes "bucketsOf m xs" "(k, b) \<in> set m" "(k', b') \<in> set m"
    and "bk_elements b' = bk_elements b"
  shows "b' = b"
proof -
  from assms(1,2) have b: "bk_elements b = filter (\<lambda>x. elementKey x = k) xs" "bk_elements b \<noteq> []"
    unfolding bucketsOf_def by blast+
  from assms(1,3) have b': "bk_elements b' = filter (\<lambda>x. elementKey x = k') xs"
    unfolding bucketsOf_def by blast
  define x where "x = hd (bk_elements b)"
  from b(2) have x: "x \<in> set (bk_elements b)" unfolding x_def by (rule hd_in_set)
  then have "x \<in> set (filter (\<lambda>x. elementKey x = k) xs)" unfolding b(1) .
  then have k: "elementKey x = k" by simp
  from x have "x \<in> set (filter (\<lambda>x. elementKey x = k') xs)"
    unfolding assms(4) [symmetric] b' .
  then have "elementKey x = k'" by simp
  with k have "k' = k" by simp
  moreover from assms(1) have "distinct (map fst m)" unfolding bucketsOf_def by blast
  ultimately show ?thesis using assms(2,3) eq_key_imp_eq_value by metis
qed

lemma run_map: "fst (run parses document) = collectTypographyData [] document"
  by (simp add: run_def Let_def)

lemma run_issues_subset:
  "set (ts_fixableIssues (finalState (snd (run parses document))))
     \<subseteq> (\<Union>(k, b) \<in> set (collectTypographyData [] document). set (triggered config b))"
  using analyzeIssues_subset [of parses config "collectTypographyData [] document"
      "\<lparr> ts_issues = [], ts_fixableIssues = [] \<rparr>"]
  by (simp add: run_def Let_def)

lemma run_issue_of_bucket:
  assumes "(k, b) \<in> set (collectTypographyData [] document)"
    and "i \<in> set (ts_fixableIssues (finalState (snd (run parses document))))"
    and "ti_elements i = bk_elements b"
  shows "i \<in> set (triggered config b)"
proof -
  from assms(2) run_issues_subset [of parses document]
  obtain k' b' where m: "(k', b') \<in> set (collectTypographyData [] document)"
    and i: "i \<in> set (triggered config b')"
    by blast
  from triggered_elements [OF i] assms(3) have "bk_elements b' = bk_elements b" by simp
  from bucket_by_elements [OF bucketsOf_collect assms(1) m this] i show ?thesis by simp
qed

lemma bucket_count:
  assumes "(k, b) \<in> set (collectTypographyData [] document)"
  shows "bk_count b = length (bk_elements b)" "1 \<le> bk_count b"
proof -
  from bucketsOf_collect [of document] assms
  have "bk_elements b \<noteq> []" and c: "bk_count b = length (bk_elements b)"
    unfolding bucketsOf_def by blast+
  then show "bk_count b = length (bk_elements b)" "1 \<le> bk_count b"
    by (simp_all add: Suc_le_eq)
qed

lemma bucket_elements_collected:
  assumes "(k, b) \<in> set (collectTypographyData [] document)"
  shows "set (bk_elements b) \<subseteq> set (collected document)"
proof -
  from bucketsOf_collect [of document] assms
  have "bk_elements b = filter (\<lambda>e. elementKey e = k) (collected document)"
    unfolding bucketsOf_def by blast
  then show ?thesis by auto
qed

text \<open>
  Two collected elements whose font size, font weight and line height are computed
  values lie in the same entry of the map exactly when their tuples (fontFamily,
  fontSize, fontWeight, lineHeight) are equal; the keys of the map are distinct and
  the entry of a key holds exactly the collected elements of that key.
\<close>

lemma bucket_unique:
  assumes "(k, b) \<in> set (collectTypographyData [] document)"
    and "(k', b') \<in> set (collectTypographyData [] document)"
    and "e \<in> set (bk_elements b)" "e \<in> set (bk_elements b')"
  shows "k' = k \<and> b' = b"
proof -
  from bucketsOf_collect [of document] assms(1,2)
  have b: "bk_elements b = filter (\<lambda>x. elementKey x = k) (collected document)"
    and b': "bk_elements b' = filter (\<lambda>x. elementKey x = k') (collected document)"
    and d: "distinct (map fst (collectTypographyData [] document))"
    unfolding bucketsOf_def by blast+
  from assms(3) have "elementKey e = k" unfolding b by simp
  moreover from assms(4) have "elementKey e = k'" unfolding b' by simp
  ultimately have k: "k' = k" by simp
  with d assms(1,2) have "b' = b" using eq_key_imp_eq_value by metis
  with k show ?thesis by simp
qed

lemma same_bucket_iff_fingerprint:
  assumes "e1 \<in> set (collected document)" "e2 \<in> set (collected document)"
    and "barFree e1" "barFree e2"
  shows "sameBucket (fst (run parses document)) e1 e2 \<longleftrightarrow> fingerprint e1 = fingerprint e2"
  using sameBucket_iff_key [OF bucketsOf_collect assms(1,2)] key_eq_fingerprint [OF assms(3,4)]
  by (simp add: run_map)

text \<open>
  When \<^verbatim>\<open>generateSelector\<close> throws on no collected element, the run ends without an
  exception, and the fixable issues hold a \<^verbatim>\<open>redundant-style\<close> issue of severity info
  for the elements of an entry exactly when the count of the entry equals the
  redundancy threshold.
\<close>

lemma redundancy_when_selectors_parse:
  assumes "\<forall>e \<in> set (collected document). \<not> selectorThrows parses e"
    and "(k, b) \<in> set (fst (run parses document))"
  shows "\<not> isl (snd (run parses document))"
    and "(\<exists>i \<in> set (ts_fixableIssues (finalState (snd (run parses document)))).
            ti_issueType i = ''redundant-style'' \<and> ti_severity i = Info
            \<and> ti_elements i = bk_elements b)
          \<longleftrightarrow> bk_count b = redundancyThreshold config"
proof -
  let ?m = "collectTypographyData [] document"
  from assms(2) have mem: "(k, b) \<in> set ?m" by (simp add: run_map)
  have ok: "\<forall>(k, b) \<in> set ?m. \<forall>e \<in> set (bk_elements b). \<not> selectorThrows parses e"
    using assms(1) bucket_elements_collected by blast
  from analyzeIssues_parses [OF ok, of config "\<lparr> ts_issues = [], ts_fixableIssues = [] \<rparr>"]
  obtain st' where run: "snd (run parses document) = Inr st'"
    and pushed: "ts_fixableIssues st' = concat (map (\<lambda>(k, b). triggered config b) ?m)"
    by (auto simp: run_def Let_def)
  from run show "\<not> isl (snd (run parses document))" by simp
  show "(\<exists>i \<in> set (ts_fixableIssues (finalState (snd (run parses document)))).
            ti_issueType i = ''redundant-style'' \<and> ti_severity i = Info
            \<and> ti_elements i = bk_elements b)
          \<longleftrightarrow> bk_count b = redundancyThreshold config"
  proof
    assume "\<exists>i \<in> set (ts_fixableIssues (finalState (snd (run parses document)))).
            ti_issueType i = ''redundant-style'' \<and> ti_severity i = Info
            \<and> ti_elements i = bk_elements b"
    then obtain i where i: "i \<in> set (ts_fixableIssues (finalState (snd (run parses document))))"
      "ti_issueType i = ''redundant-style''" "ti_elements i = bk_elements b" by blast
    from run_issue_of_bucket [OF mem i(1,3)] i(2)
    have "bk_count b \<le> redundancyThreshold config"
      using triggered_redundant by blast
    with bucket_count(2) [OF mem] show "bk_count b = redundancyThreshold config"
      by (simp add: config_def)
  next
    assume "bk_count b = redundancyThreshold config"
    then have "\<lparr> ti_issueType = ''redundant-style'', ti_severity = Info,
        ti_elements = bk_elements b \<rparr> \<in> set (triggered config b)"
      by (simp add: triggered_redundant_mem)
    with mem have "\<lparr> ti_issueType = ''redundant-style'', ti_severity = Info,
        ti_elements = bk_elements b \<rparr> \<in> set (ts_fixableIssues st')"
      unfolding pushed by auto
    then show "\<exists>i \<in> set (ts_fixableIssues (finalState (snd (run parses document)))).
            ti_issueType i = ''redundant-style'' \<and> ti_severity i = Info
            \<and> ti_elements i = bk_elements b"
      unfolding run finalState_def by force
  qed
qed

lemma example_collected:
  "collected exampleDocument = [styledP, styledSpan, styledH1]"
  by (simp add: collected_def exampleDocument_def visible_def selected_def toLowerCase_def
      toLowerChar_def styledP_def styledSpan_def styledH1_def Let_def)

lemma example_barFree: "barFree styledP" "barFree styledSpan" "barFree styledH1"
  by (simp_all add: barFree_def styledP_def styledSpan_def styledH1_def)

lemma example_fingerprints:
  "fingerprint styledP = fingerprint styledSpan" "fingerprint styledP \<noteq> fingerprint styledH1"
  by (simp_all add: fingerprint_def styledP_def styledSpan_def styledH1_def)

lemma example_keys:
  "elementKey styledP = ''Arial|16px|400|normal''"
  "elementKey styledSpan = ''Arial|16px|400|normal''"
  "elementKey styledH1 = ''Arial|32px|700|38px''"
  by (simp_all add: elementKey_def styleKey_def styledP_def styledSpan_def styledH1_def)

lemma example_map:
  "collectTypographyData [] exampleDocument =
     [(''Arial|16px|400|normal'',
       \<lparr> bk_metrics = \<lparr> fm_fontFamily = ''Arial'', fm_fontSize = ''16px'', fm_fontWeight = ''400'',
                        fm_lineHeight = ''normal'', fm_element = styledP \<rparr>,
         bk_elements = [styledP, styledSpan], bk_count = 2 \<rparr>),
      (''Arial|32px|700|38px'',
       \<lparr> bk_metrics = \<lparr> fm_fontFamily = ''Arial'', fm_fontSize = ''32px'', fm_fontWeight = ''700'',
                        fm_lineHeight = ''38px'', fm_element = styledH1 \<rparr>,
         bk_elements = [styledH1], bk_count = 1 \<rparr>)]"
proof -
  have v: "visible styledP" "visible styledSpan" "visible styledH1"
    by (simp_all add: visible_def styledP_def styledSpan_def styledH1_def)
  have f: "filter selected exampleDocument = [styledP, styledSpan, styledH1]"
    by (simp add: exampleDocument_def selected_def toLowerCase_def
      toLowerChar_def styledP_def styledSpan_def styledH1_def Let_def)
  have 1: "collectElement [] styledP = [(''Arial|16px|400|normal'',
       \<lparr> bk_metrics = \<lparr> fm_fontFamily = ''Arial'', fm_fontSize = ''16px'', fm_fontWeight = ''400'',
                        fm_lineHeight = ''normal'', fm_element = styledP \<rparr>,
         bk_elements = [styledP], bk_count = 1 \<rparr>)]"
    using collectElement_new [OF v(1), of "[]"]
    by (simp add: example_keys) (simp add: styledP_def)
  show ?thesis
    unfolding collectTypographyData_def f
    apply (simp add: 1)
    apply (subst collectElement_old [OF v(2)])
     apply (simp add: example_keys)
    apply (simp add: example_keys)
    apply (subst collectElement_new [OF v(3)])
     apply (simp add: example_keys)
    apply (simp add: example_keys)
    apply (simp add: styledH1_def)
    done
qed

lemma parseFloat_normal: "parseFloat ''normal'' = NaN"
  by (simp add: parseFloat_def isWhiteSpace_def isDigitIn_def digitValue_def Let_def)

lemma flex_map:
  "collectTypographyData [] flexDocument =
     [(''Arial|16px|400|normal'', flexEntry), (''Arial|32px|700|38px'', headingEntry)]"
proof -
  have v: "visible styledFlex" "visible styledH1"
    by (simp_all add: visible_def styledFlex_def styledH1_def)
  have f: "filter selected flexDocument = [styledFlex, styledH1]"
    by (simp add: flexDocument_def selected_def toLowerCase_def
      toLowerChar_def styledFlex_def styledH1_def Let_def)
  have k: "elementKey styledFlex = ''Arial|16px|400|normal''"
    by (simp add: elementKey_def styleKey_def styledFlex_def)
  have 1: "collectElement [] styledFlex = [(''Arial|16px|400|normal'', flexEntry)]"
    using collectElement_new [OF v(1), of "[]"]
    by (simp add: k flexEntry_def) (simp add: styledFlex_def)
  have 2: "collectElement [(''Arial|16px|400|normal'', flexEntry)] styledH1 =
      [(''Arial|16px|400|normal'', flexEntry), (''Arial|32px|700|38px'', headingEntry)]"
    using collectElement_new [OF v(2), of "[(''Arial|16px|400|normal'', flexEntry)]"]
    by (simp add: example_keys headingEntry_def) (simp add: styledH1_def)
  show ?thesis
    unfolding collectTypographyData_def f by (simp add: 1 2)
qed

lemma flex_throws: "selectorThrows exampleParser styledFlex"
  by (simp add: selectorThrows_def generateSelector_def classSelector_def
      exampleParser_def styledFlex_def Let_def
      toLowerCase_def toLowerChar_def ustr_def trim_def splitWhitespace_def isJsWhiteSpace_def)

lemma flex_triggered:
  "triggered config flexEntry
   = [\<lparr> ti_issueType = ''redundant-style'', ti_severity = Info, ti_elements = [styledFlex] \<rparr>]"
  by (simp add: triggered_def Let_def flexEntry_def parseFloat_normal config_def
      toLowerCase_def toLowerChar_def)

lemma flex_bucket_throws:
  "analyzeBucket exampleParser config emptyTypographyState flexEntry
     = Inl (SyntaxError,
            \<lparr> ts_issues = [\<lparr> li_severity = Info, li_elements = [styledFlex] \<rparr>],
              ts_fixableIssues = [] \<rparr>)"
  by (simp add: analyzeBucket_def reportAll_def flex_triggered report_cases flex_throws
      addIssue_def emptyTypographyState_def)

text \<open>
  C7 fails on the code: in the document of a \<^verbatim>\<open>div\<close> of class \<^verbatim>\<open>md:flex\<close> and a
  heading, each alone in its entry, both entries have count 1, the redundancy
  threshold. The query for the selector \<^verbatim>\<open>div.md:flex\<close> throws in
  \<^verbatim>\<open>generateSelector\<close>: \<^verbatim>\<open>addIssue\<close> has recorded the first entry, no
  \<^verbatim>\<open>redundant-style\<close> issue is pushed for it, and the second entry is never reached.
\<close>

theorem redundant_style_lost_on_selector_error:
  "fst (run exampleParser flexDocument)
     = [(''Arial|16px|400|normal'', flexEntry), (''Arial|32px|700|38px'', headingEntry)]
   \<and> bk_count flexEntry = redundancyThreshold config
   \<and> bk_count headingEntry = redundancyThreshold config
   \<and> snd (run exampleParser flexDocument)
       = Inl (SyntaxError,
              \<lparr> ts_issues = [\<lparr> li_severity = Info, li_elements = [styledFlex] \<rparr>],
                ts_fixableIssues = [] \<rparr>)"
proof -
  have m: "fst (run exampleParser flexDocument)
     = [(''Arial|16px|400|normal'', flexEntry), (''Arial|32px|700|38px'', headingEntry)]"
    by (simp add: run_map flex_map)
  have c: "bk_count flexEntry = redundancyThreshold config"
    "bk_count headingEntry = redundancyThreshold config"
    by (simp_all add: flexEntry_def headingEntry_def config_def)
  have "snd (run exampleParser flexDocument)
       = analyzeIssues exampleParser config
           [(''Arial|16px|400|normal'', flexEntry), (''Arial|32px|700|38px'', headingEntry)]
           emptyTypographyState"
    by (simp add: run_def Let_def flex_map emptyTypographyState_def)
  also have "\<dots> = Inl (SyntaxError,
              \<lparr> ts_issues = [\<lparr> li_severity = Info, li_elements = [styledFlex] \<rparr>],
                ts_fixableIssues = [] \<rparr>)"
    by (simp add: analyzeIssues_def flex_bucket_throws)
  finally show ?thesis using m c by simp
qed

section \<open>Line heights that do not parse\<close>

lemma triggered_nan:
  assumes "parseFloat (fm_lineHeight (bk_metrics b)) = NaN"
    and "i \<in> set (triggered cfg b)"
  shows "ti_issueType i \<noteq> ''line-height-too-small'' \<and> ti_issueType i \<noteq> ''line-height-too-large''"
  using assms by (auto simp: triggered_def Let_def split: if_splits)

text \<open>
  C10: for an entry whose line height does not parse (\<^verbatim>\<open>parseFloat\<close> gives \<^verbatim>\<open>NaN\<close>, as
  for \<^verbatim>\<open>normal\<close>), no test of the callback of \<^verbatim>\<open>analyzeIssues\<close> asks for an issue of
  type \<^verbatim>\<open>line-height-too-small\<close> or \<^verbatim>\<open>line-height-too-large\<close>, whatever the font size
  and the configuration, and the callback adds none to the fixable issues, whether it
  returns or throws; and the fixable issues left by a run hold no such issue for the
  elements of such an entry.
\<close>

theorem nan_line_height_never_flagged:
  "(parseFloat (fm_lineHeight (bk_metrics entry)) = NaN \<longrightarrow>
      (\<forall>i \<in> set (triggered cfg entry).
         ti_issueType i \<noteq> ''line-height-too-small''
         \<and> ti_issueType i \<noteq> ''line-height-too-large'')
      \<and> (\<forall>i \<in> set (ts_fixableIssues (finalState (analyzeBucket parses cfg st entry))).
           i \<in> set (ts_fixableIssues st)
           \<or> (ti_issueType i \<noteq> ''line-height-too-small''
               \<and> ti_issueType i \<noteq> ''line-height-too-large'')))
   \<and> (\<forall>(k, b) \<in> set (fst (run parses document)).
        parseFloat (fm_lineHeight (bk_metrics b)) = NaN \<longrightarrow>
        \<not> (\<exists>i \<in> set (ts_fixableIssues (finalState (snd (run parses document)))).
              ti_elements i = bk_elements b
              \<and> (ti_issueType i = ''line-height-too-small''
                   \<or> ti_issueType i = ''line-height-too-large'')))
   \<and> parseFloat ''normal'' = NaN"
proof (intro conjI impI ballI)
  assume nan: "parseFloat (fm_lineHeight (bk_metrics entry)) = NaN"
  fix i assume "i \<in> set (triggered cfg entry)"
  with nan show "ti_issueType i \<noteq> ''line-height-too-small''"
    and "ti_issueType i \<noteq> ''line-height-too-large''"
    using triggered_nan by blast+
next
  assume nan: "parseFloat (fm_lineHeight (bk_metrics entry)) = NaN"
  fix i assume "i \<in> set (ts_fixableIssues (finalState (analyzeBucket parses cfg st entry)))"
  with reportAll_subset [of parses st "triggered cfg entry"]
  have "i \<in> set (ts_fixableIssues st) \<or> i \<in> set (triggered cfg entry)"
    unfolding analyzeBucket_def by blast
  with triggered_nan [OF nan]
  show "i \<in> set (ts_fixableIssues st)
           \<or> (ti_issueType i \<noteq> ''line-height-too-small''
               \<and> ti_issueType i \<noteq> ''line-height-too-large'')"
    by blast
next
  fix kb assume kb: "kb \<in> set (fst (run parses document))"
  obtain k b where [simp]: "kb = (k, b)" by (cases kb)
  from kb have mem: "(k, b) \<in> set (collectTypographyData [] document)"
    by (simp add: run_map)
  have "parseFloat (fm_lineHeight (bk_metrics b)) = NaN \<longrightarrow>
        \<not> (\<exists>i \<in> set (ts_fixableIssues (finalState (snd (run parses document)))).
              ti_elements i = bk_elements b
              \<and> (ti_issueType i = ''line-height-too-small''
                   \<or> ti_issueType i = ''line-height-too-large''))"
  proof (intro impI notI)
    assume nan: "parseFloat (fm_lineHeight (bk_metrics b)) = NaN"
    assume "\<exists>i \<in> set (ts_fixableIssues (finalState (snd (run parses document)))).
              ti_elements i = bk_elements b
              \<and> (ti_issueType i = ''line-height-too-small''
                   \<or> ti_issueType i = ''line-height-too-large'')"
    then obtain i where i: "i \<in> set (ts_fixableIssues (finalState (snd (run parses document))))"
      "ti_elements i = bk_elements b"
      "ti_issueType i = ''line-height-too-small'' \<or> ti_issueType i = ''line-height-too-large''"
      by blast
    from run_issue_of_bucket [OF mem i(1,2)] have "i \<in> set (triggered config b)" .
    from triggered_nan [OF nan this] i(3) show False by blast
  qed
  then show "case kb of (k, b) \<Rightarrow>
        parseFloat (fm_lineHeight (bk_metrics b)) = NaN \<longrightarrow>
        \<not> (\<exists>i \<in> set (ts_fixableIssues (finalState (snd (run parses document)))).
              ti_elements i = bk_elements b
              \<and> (ti_issueType i = ''line-height-too-small''
                   \<or> ti_issueType i = ''line-height-too-large''))"
    by simp
next
  show "parseFloat ''normal'' = NaN" by (rule parseFloat_normal)
qed

theorem nan_line_height_never_flagged_witness:
  "(''Arial|16px|400|normal'',
       \<lparr> bk_metrics = \<lparr> fm_fontFamily = ''Arial'', fm_fontSize = ''16px'', fm_fontWeight = ''400'',
                        fm_lineHeight = ''normal'', fm_element = styledP \<rparr>,
         bk_elements = [styledP, styledSpan], bk_count = 2 \<rparr>)
      \<in> set (fst (run exampleParser exampleDocument))
   \<and> parseFloat ''normal'' = NaN
   \<and> \<not> (\<exists>i \<in> set (ts_fixableIssues (finalState (snd (run exampleParser exampleDocument)))).
           ti_elements i = [styledP, styledSpan]
           \<and> (ti_issueType i = ''line-height-too-small''
                \<or> ti_issueType i = ''line-height-too-large''))"
proof -
  let ?b = "\<lparr> bk_metrics = \<lparr> fm_fontFamily = ''Arial'', fm_fontSize = ''16px'',
                        fm_fontWeight = ''400'',
                        fm_lineHeight = ''normal'', fm_element = styledP \<rparr>,
         bk_elements = [styledP, styledSpan], bk_count = 2 \<rparr>"
  have mem: "(''Arial|16px|400|normal'', ?b) \<in> set (fst (run exampleParser exampleDocument))"
    by (simp add: run_map example_map)
  have nan: "parseFloat (fm_lineHeight (bk_metrics ?b)) = NaN"
    by (simp add: parseFloat_normal)
  from nan_line_height_never_flagged [of ?b config exampleParser emptyTypographyState exampleDocument]
    mem nan
  have "\<not> (\<exists>i \<in> set (ts_fixableIssues (finalState (snd (run exampleParser exampleDocument)))).
           ti_elements i = bk_elements ?b
           \<and> (ti_issueType i = ''line-height-too-small''
                \<or> ti_issueType i = ''line-height-too-large''))"
    by blast
  with mem parseFloat_normal show ?thesis by simp
qed

section \<open>Rounding at work: two computations of the program\<close>

text \<open>A double of binary exponent \<open>n - k\<close> is found by rounding a quotient of
  integers.\<close>

lemma floor_log2:
  assumes "2 ^ n \<le> \<bar>x\<bar> * 2 ^ k" "\<bar>x\<bar> * 2 ^ k < 2 ^ (n + 1)"
  shows "\<lfloor>log 2 \<bar>x\<bar>\<rfloor> = int n - int k"
proof -
  have k: "(0::real) < 2 ^ k" by simp
  have "(0::real) < 2 ^ n" by simp
  with assms(1) have "0 < \<bar>x\<bar> * 2 ^ k" by linarith
  then have pos: "0 < \<bar>x\<bar>" by (simp add: zero_less_mult_iff)
  let ?y = "\<bar>x\<bar> * 2 ^ k"
  have y: "0 < ?y" using pos by simp
  have sum: "log 2 ?y = log 2 \<bar>x\<bar> + real k"
    using pos by (simp add: log_mult log_nat_power)
  have p1: "(2::real) powr real n = 2 ^ n" by (rule powr_realpow) simp
  have p2: "(2::real) powr real (n + 1) = 2 ^ (n + 1)" by (rule powr_realpow) simp
  have "real n \<le> log 2 ?y"
    using assms(1) le_log_iff [of 2 ?y "real n"] y unfolding p1 by simp
  moreover have "log 2 ?y < real (n + 1)"
    using assms(2) log_less_iff [of 2 ?y "real (n + 1)"] y unfolding p2 by simp
  ultimately have "real_of_int (int n - int k) \<le> log 2 \<bar>x\<bar>"
    "log 2 \<bar>x\<bar> < real_of_int (int n - int k) + 1"
    unfolding sum by simp_all
  then show ?thesis by (rule floor_unique)
qed

lemma toDouble_binade:
  assumes "2 ^ n \<le> \<bar>x\<bar> * 2 ^ k" "\<bar>x\<bar> * 2 ^ k < 2 ^ (n + 1)"
  shows "toDouble x = of_int (roundHalfEven (x * 2 ^ (52 + k) / 2 ^ n)) * 2 ^ n / 2 ^ (52 + k)"
proof -
  have "(0::real) < 2 ^ n" by simp
  with assms(1) have "0 < \<bar>x\<bar> * 2 ^ k" by linarith
  then have nz: "x \<noteq> 0" by auto
  have "of_int (int n - int k) - (52::real) = real n - real (52 + k)"
    by simp
  then have "(2::real) powr (of_int (int n - int k) - 52) = 2 powr (real n - real (52 + k))"
    by (rule arg_cong)
  also have "\<dots> = 2 powr real n / 2 powr real (52 + k)"
    by (rule powr_diff)
  also have "\<dots> = 2 ^ n / 2 ^ (52 + k)"
    using powr_realpow [of 2 n] powr_realpow [of 2 "52 + k"] by simp
  finally have ulp: "(2::real) powr (of_int (int n - int k) - 52) = 2 ^ n / 2 ^ (52 + k)" .
  have "toDouble x = of_int (roundHalfEven (x / (2 ^ n / 2 ^ (52 + k)))) * (2 ^ n / 2 ^ (52 + k))"
    using nz unfolding toDouble_def Let_def floor_log2 [OF assms] ulp by simp
  then show ?thesis by simp
qed

text \<open>
  The colour rgba(62, 36, 255, 0.05) over rgb(12, 6, 0). The red sum is
  14.499999999999998 in doubles (the product 12 \<cdot> 0.95 lies half-way between two
  doubles and goes to the even one), where the exact sum is 14.5: the blend has red
  14 and green 7.
\<close>

lemma blend_step_1: "toDouble (19 / 20) = 4278419646001971 / 4503599627370496"
  using toDouble_binade [of 0 "19 / 20" 1] by (simp add: roundHalfEven_def Let_def)

lemma blend_step_2: "toDouble (31 / 10) = 6980579422424269 / 2251799813685248"
  using toDouble_binade [of 1 "31 / 10" 0] by (simp add: roundHalfEven_def Let_def)

lemma blend_step_3: "toDouble (12835258938005913 / 1125899906842624) = 1604407367250739 / 140737488355328"
  using toDouble_binade [of 3 "12835258938005913 / 1125899906842624" 0] by (simp add: roundHalfEven_def Let_def)

lemma blend_step_4: "toDouble (32651097298436093 / 2251799813685248) = 8162774324609023 / 562949953421312"
  using toDouble_binade [of 3 "32651097298436093 / 2251799813685248" 0] by (simp add: roundHalfEven_def Let_def)

lemma blend_step_5: "toDouble (9 / 5) = 8106479329266893 / 4503599627370496"
  using toDouble_binade [of 0 "9 / 5" 0] by (simp add: roundHalfEven_def Let_def)

lemma blend_step_6: "toDouble (12835258938005913 / 2251799813685248) = 1604407367250739 / 281474976710656"
  using toDouble_binade [of 2 "12835258938005913 / 2251799813685248" 0] by (simp add: roundHalfEven_def Let_def)

lemma blend_step_7: "toDouble (33776997205278717 / 4503599627370496) = 8444249301319679 / 1125899906842624"
  using toDouble_binade [of 2 "33776997205278717 / 4503599627370496" 0] by (simp add: roundHalfEven_def Let_def)

lemma blend_step_8: "toDouble (51 / 4) = 51 / 4"
  using toDouble_binade [of 3 "51 / 4" 0] by (simp add: roundHalfEven_def Let_def)

lemma blend_half_way_sums:
  "blendColors \<lparr> col_r = 62, col_g = 36, col_b = 255, col_a = 0.05 \<rparr>
               \<lparr> col_r = 12, col_g = 6, col_b = 0, col_a = 1 \<rparr>
     = \<lparr> col_r = 14, col_g = 7, col_b = 13, col_a = 1 \<rparr>"
  by (simp add: blendColors_def Let_def jsRound_def toDouble_zero
      blend_step_1 blend_step_2 blend_step_3 blend_step_4 blend_step_5 blend_step_6 blend_step_7 blend_step_8)

text \<open>
  A line height of 34.56px at a font size of 19.2px: the exact ratio is 1.8, the
  quotient of the doubles is 1.8000000000000003, above the double of the literal
  \<^verbatim>\<open>1.8\<close>, and the entry is reported as \<^verbatim>\<open>line-height-too-large\<close>.
\<close>

lemma ratio_step_1: "toDouble (864 / 25) = 607985949695017 / 17592186044416"
  using toDouble_binade [of 5 "864 / 25" 0] by (simp add: roundHalfEven_def Let_def)

lemma ratio_step_2: "toDouble (96 / 5) = 5404319552844595 / 281474976710656"
  using toDouble_binade [of 4 "96 / 5" 0] by (simp add: roundHalfEven_def Let_def)

lemma ratio_step_3: "toDouble (9727775195120272 / 5404319552844595) = 4053239664633447 / 2251799813685248"
  using toDouble_binade [of 0 "9727775195120272 / 5404319552844595" 0] by (simp add: roundHalfEven_def Let_def)

lemma ratio_step_4: "toDouble (9 / 5) = 8106479329266893 / 4503599627370496"
  using toDouble_binade [of 0 "9 / 5" 0] by (simp add: roundHalfEven_def Let_def)

lemma ratio_step_5: "toDouble (6 / 5) = 5404319552844595 / 4503599627370496"
  using toDouble_binade [of 0 "6 / 5" 0] by (simp add: roundHalfEven_def Let_def)

lemma parseFloat_examples:
  "parseFloat ''34.56px'' = Fin (toDouble (864 / 25))"
  "parseFloat ''19.2px'' = Fin (toDouble (96 / 5))"
  by (simp_all add: parseFloat_def parseExponent_def scale10_def isWhiteSpace_def isDigitIn_def
      digitValue_def digitsValue_def Let_def)

lemma line_height_rounding:
  "\<lparr> ti_issueType = ''line-height-too-large'', ti_severity = Warning, ti_elements = elements \<rparr>
     \<in> set (triggered config
           \<lparr> bk_metrics = \<lparr> fm_fontFamily = ''Arial'', fm_fontSize = ''19.2px'',
                            fm_fontWeight = ''400'', fm_lineHeight = ''34.56px'',
                            fm_element = e \<rparr>,
             bk_elements = elements, bk_count = 2 \<rparr>)"
  by (simp add: triggered_def Let_def config_def parseFloat_examples
      ratio_step_1 ratio_step_2 ratio_step_3 ratio_step_4 ratio_step_5)

end
